theory Spec2Isabelle
  imports Main "HOL-Library.Word"
begin

unbundle bit_operations_syntax

section \<open>Data model of highlighting.c\<close>

text \<open>
  \<open>gint\<close> and \<open>guint\<close> are 32-bit machine integers. Colours are kept as words, because the
  code works on them with masks and shifts; \<open>gint\<close> values that are only compared or used as
  array indices (filetype ids, positions) are kept as \<open>int\<close>.
\<close>

type_synonym gint = "32 word"
type_synonym guint = "32 word"

text \<open>A C pointer, by the value it points to: \<open>NULL\<close>, or \<open>Ptr v\<close> for a valid object \<open>v\<close>.\<close>

datatype 'a ptr = NULL | Ptr 'a

text \<open>
  What C leaves undefined is a value of the model: an array element outside its array, and a
  dereference of \<open>NULL\<close>.
\<close>

datatype fault = Out_of_bounds | Null_dereference

definition and_then :: "fault + 'a \<Rightarrow> ('a \<Rightarrow> fault + 'b) \<Rightarrow> fault + 'b" where
  "and_then m f = (case m of Inl e \<Rightarrow> Inl e | Inr x \<Rightarrow> f x)"

text \<open>
  Modelled from the spec: \<open>HighlightingStyle\<close> is declared in highlighting.h, which is not
  part of the sources at hand. The glossary calls a styling "a named visual attribute set
  (foreground color, background color, bold, italic)"; the initialisers in highlighting.c
  (\<open>{0x000000, 0xffffff, FALSE, FALSE}\<close>) give the order and the kinds of the four fields.
\<close>

record HighlightingStyle =
  foreground :: gint
  background :: gint
  bold :: bool
  italic :: bool

text \<open>
  A \<open>GKeyFile\<close> (GLib) as the source sees it, through the two accessors it calls.
  \<open>g_key_file_get_string\<close> answers \<open>NULL\<close> when it has no value for the key.
  \<open>g_key_file_get_string_list\<close> answers \<open>NULL\<close> likewise, and otherwise a freshly
  allocated \<open>NULL\<close>-terminated array of strings: \<open>Ptr l\<close> stands for the array of
  \<open>length l + 1\<close> slots whose slot \<open>length l\<close> is the terminating \<open>NULL\<close>. A key
  whose value is empty gives the list of no strings, \<open>Ptr []\<close>; a value without a
  separator gives a list of one string.
\<close>

record GKeyFile =
  g_key_file_get_string :: "string \<Rightarrow> string \<Rightarrow> string ptr"
  g_key_file_get_string_list :: "string \<Rightarrow> string \<Rightarrow> string list ptr"

text \<open>\<open>list[i]\<close> for a string array obtained from \<open>g_key_file_get_string_list\<close>.\<close>

definition list_at :: "string list \<Rightarrow> nat \<Rightarrow> fault + string ptr" where
  "list_at l i =
     (if i < length l then Inr (Ptr (l ! i))
      else if i = length l then Inr NULL
      else Inl Out_of_bounds)"

text \<open>
  The condition \<open>list != NULL && list[i] != NULL\<close>: \<open>Inr (Ptr s)\<close> when it holds, with
  \<open>s\<close> the string \<open>list[i]\<close>; \<open>Inr NULL\<close> when it does not. \<open>&&\<close> does not read
  \<open>list[i]\<close> when \<open>list\<close> is \<open>NULL\<close>.
\<close>

definition elem :: "string list ptr \<Rightarrow> nat \<Rightarrow> fault + string ptr" where
  "elem list i = (case list of NULL \<Rightarrow> Inr NULL | Ptr l \<Rightarrow> list_at l i)"

text \<open>
  The layered lookup written twice in every reader:
  \<open>x = get(configh, ...); if (x == NULL) x = get(config, ...);\<close>
\<close>

definition or_else :: "'a ptr \<Rightarrow> 'a ptr \<Rightarrow> 'a ptr" where
  "or_else first second = (if first = NULL then second else first)"

text \<open>
  \<open>StyleSet\<close>: the styling array and the keyword array are heap arrays (\<open>g_new0\<close>,
  \<open>g_new\<close>), \<open>NULL\<close> while not allocated. The member \<open>keywords\<close> is written
  \<open>keywords'\<close>, the plain name being reserved in theory files.
\<close>

record StyleSet =
  styling :: "HighlightingStyle list ptr"
  keywords' :: "string ptr list ptr"
  wordchars :: "string ptr"

text \<open>\<open>enum\<close> of the common styling: indices into \<open>common_style_set.styling\<close>.\<close>

definition GCS_DEFAULT :: nat where "GCS_DEFAULT = 0"
definition GCS_SELECTION :: nat where "GCS_SELECTION = 1"
definition GCS_BRACE_GOOD :: nat where "GCS_BRACE_GOOD = 2"
definition GCS_BRACE_BAD :: nat where "GCS_BRACE_BAD = 3"
definition GCS_MARGIN_LINENUMBER :: nat where "GCS_MARGIN_LINENUMBER = 4"
definition GCS_MARGIN_FOLDING :: nat where "GCS_MARGIN_FOLDING = 5"
definition GCS_CURRENT_LINE :: nat where "GCS_CURRENT_LINE = 6"
definition GCS_CARET :: nat where "GCS_CARET = 7"
definition GCS_INDENT_GUIDE :: nat where "GCS_INDENT_GUIDE = 8"
definition GCS_WHITE_SPACE :: nat where "GCS_WHITE_SPACE = 9"
definition GCS_LINE_WRAP_VISUALS :: nat where "GCS_LINE_WRAP_VISUALS = 10"
definition GCS_LINE_WRAP_INDENT :: nat where "GCS_LINE_WRAP_INDENT = 11"
definition GCS_TRANSLUCENCY :: nat where "GCS_TRANSLUCENCY = 12"
definition GCS_MARKER_LINE :: nat where "GCS_MARKER_LINE = 13"
definition GCS_MARKER_SEARCH :: nat where "GCS_MARKER_SEARCH = 14"
definition GCS_MARKER_TRANSLUCENCY :: nat where "GCS_MARKER_TRANSLUCENCY = 15"
definition GCS_MAX :: nat where "GCS_MAX = 16"

text \<open>\<open>FoldingStyle\<close>: bit-fields of 2, 2 and 3 bits.\<close>

record FoldingStyle =
  marker :: "2 word"
  lines :: "2 word"
  draw_line :: "3 word"

text \<open>
  The anonymous struct \<open>common_style_set\<close>. Its \<open>styling\<close> member is a static array of
  \<open>GCS_MAX\<close> elements, kept as a function on indices: only indices below \<open>GCS_MAX\<close> are
  elements of the array, and every read through a computed index checks that.
  \<open>invert_all\<close> is a \<open>gboolean\<close>, that is a \<open>gint\<close>, true when it is not zero.
\<close>

record CommonStyleSet =
  cs_styling :: "nat \<Rightarrow> HighlightingStyle"
  cs_folding_style :: FoldingStyle
  cs_invert_all :: gint
  cs_wordchars :: "string ptr"

text \<open>
  The file's static variables. \<open>style_sets\<close> is a static array of
  \<open>GEANY_MAX_BUILT_IN_FILETYPES - 1\<close> elements, kept as a function on indices as well;
  \<open>common_style_set_valid\<close> is the static local of \<open>styleset_common_init\<close>.
\<close>

record highlighting_state =
  style_sets :: "nat \<Rightarrow> StyleSet"
  common_style_set :: CommonStyleSet
  whitespace_chars :: "string ptr"
  common_style_set_valid :: bool

text \<open>
  What highlighting.c takes from other files, as parameters of the model:
  \<^item> \<open>utils_strtod\<close>: the expression \<open>(gint) utils_strtod(s, NULL, FALSE)\<close> (utils.c; the
    function returns a \<open>gdouble\<close>, only its conversion to \<open>gint\<close> is used here);
  \<open>utils_atob\<close> (utils.c), which is also called with a possibly \<open>NULL\<close> argument;
  \<^item> \<open>strtol\<close>: \<open>strtol(s, &end, 10)\<close> of the C library, as the pair of the \<open>long\<close> it
    returns and the number of characters it consumed (\<open>end - s\<close>);
  \<^item> the macro \<open>GEANY_WORDCHARS\<close> (geany.h) and the enumerators
    \<open>GEANY_MAX_BUILT_IN_FILETYPES\<close> and \<open>GEANY_FILETYPES_NONE\<close> (filetypes.h);
  \<^item> \<open>filetypes_load_config\<close> (filetypes.c), for its effect on the static variables of
    highlighting.c.
\<close>

record externals =
  utils_strtod :: "string \<Rightarrow> gint"
  utils_atob :: "string ptr \<Rightarrow> bool"
  strtol :: "string \<Rightarrow> int \<times> nat"
  GEANY_WORDCHARS :: string
  GEANY_MAX_BUILT_IN_FILETYPES :: nat
  GEANY_FILETYPES_NONE :: int
  filetypes_load_config :: "int \<Rightarrow> highlighting_state \<Rightarrow> highlighting_state"

text \<open>The macro \<open>GEANY_WHITESPACE_CHARS\<close>: space, tab and the ASCII punctuation listed.\<close>

definition GEANY_WHITESPACE_CHARS :: string where
  "GEANY_WHITESPACE_CHARS =
     [CHR '' '', CHR 0x09] @ ''!'' @ [CHR 0x22] @ ''#$%&'' @ [CHR 0x27] @
     ''()*+,-./:;<=>?@['' @ [CHR 0x5C] @ '']^`{|}~''"

text \<open>
  \<open>g_strdup\<close> returns a new string with the same characters, and \<open>NULL\<close> for \<open>NULL\<close>.
  Strings are values here, so the copy is the string itself.
\<close>

definition g_strdup :: "string ptr \<Rightarrow> string ptr" where
  "g_strdup str = str"

section \<open>The readers of the two keyfiles\<close>

text \<open>
  The assignment \<open>style_sets[index].keywords[pos] = v\<close>, for an array \<open>style_sets\<close> of
  \<open>n\<close> elements.
\<close>

definition store_keyword ::
  "nat \<Rightarrow> int \<Rightarrow> int \<Rightarrow> string ptr \<Rightarrow> highlighting_state \<Rightarrow> fault + highlighting_state" where
  "store_keyword n index pos v s =
     (if index < 0 \<or> int n \<le> index then Inl Out_of_bounds
      else case keywords' (style_sets s (nat index)) of
             NULL \<Rightarrow> Inl Null_dereference
           | Ptr kw \<Rightarrow>
               if pos < 0 \<or> int (length kw) \<le> pos then Inl Out_of_bounds
               else Inr (s\<lparr>style_sets := (style_sets s)
                           (nat index := (style_sets s (nat index))
                              \<lparr>keywords' := Ptr (kw[nat pos := v])\<rparr>)\<rparr>))"

definition get_keyfile_keywords ::
  "externals \<Rightarrow> GKeyFile ptr \<Rightarrow> GKeyFile ptr \<Rightarrow> string ptr \<Rightarrow> string \<Rightarrow> int \<Rightarrow> int \<Rightarrow>
   string ptr \<Rightarrow> highlighting_state \<Rightarrow> fault + highlighting_state" where
  "get_keyfile_keywords ext config configh section key index pos default_value s =
     (case config of
        NULL \<Rightarrow> store_keyword (GEANY_MAX_BUILT_IN_FILETYPES ext - 1) index pos
                  (g_strdup default_value) s
      | Ptr cfg \<Rightarrow>
     (case configh of
        NULL \<Rightarrow> store_keyword (GEANY_MAX_BUILT_IN_FILETYPES ext - 1) index pos
                  (g_strdup default_value) s
      | Ptr cfgh \<Rightarrow>
     (case section of
        NULL \<Rightarrow> store_keyword (GEANY_MAX_BUILT_IN_FILETYPES ext - 1) index pos
                  (g_strdup default_value) s
      | Ptr sec \<Rightarrow>
          (let result = or_else (g_key_file_get_string cfgh sec key)
                                (g_key_file_get_string cfg sec key)
           in if result = NULL
              then store_keyword (GEANY_MAX_BUILT_IN_FILETYPES ext - 1) index pos
                     (g_strdup default_value) s
              else store_keyword (GEANY_MAX_BUILT_IN_FILETYPES ext - 1) index pos
                     result s))))"

text \<open>\<open>get_keyfile_wordchars\<close>: the value it stores into \<open>*wordchars\<close>.\<close>

definition get_keyfile_wordchars :: "externals \<Rightarrow> GKeyFile ptr \<Rightarrow> GKeyFile ptr \<Rightarrow> string ptr" where
  "get_keyfile_wordchars ext config configh =
     (case config of
        NULL \<Rightarrow> g_strdup (Ptr (GEANY_WORDCHARS ext))
      | Ptr cfg \<Rightarrow>
     (case configh of
        NULL \<Rightarrow> g_strdup (Ptr (GEANY_WORDCHARS ext))
      | Ptr cfgh \<Rightarrow>
          (let result = or_else (g_key_file_get_string cfgh ''settings'' ''wordchars'')
                                (g_key_file_get_string cfg ''settings'' ''wordchars'')
           in if result = NULL then g_strdup (Ptr (GEANY_WORDCHARS ext)) else result)))"

definition get_keyfile_whitespace_chars :: "GKeyFile ptr \<Rightarrow> GKeyFile ptr \<Rightarrow> string ptr" where
  "get_keyfile_whitespace_chars config configh =
     (let result =
        (case config of
           NULL \<Rightarrow> NULL
         | Ptr cfg \<Rightarrow>
        (case configh of
           NULL \<Rightarrow> NULL
         | Ptr cfgh \<Rightarrow>
             or_else (g_key_file_get_string cfgh ''settings'' ''whitespace_chars'')
                     (g_key_file_get_string cfg ''settings'' ''whitespace_chars'')))
      in if result = NULL then g_strdup (Ptr GEANY_WHITESPACE_CHARS) else result)"

text \<open>
  \<open>rotate_rgb\<close>: convert \<open>0x..RRGGBB\<close> to \<open>0x..BBGGRR\<close>. \<open>>>\<close> on a \<open>gint\<close> is the
  arithmetic shift.
\<close>

definition rotate_rgb :: "gint \<Rightarrow> gint" where
  "rotate_rgb color =
     signed_drop_bit 16 (color AND 0xFF0000) +
     (color AND 0x00FF00) +
     push_bit 16 (color AND 0x0000FF)"

text \<open>
  \<open>get_keyfile_style\<close>: the style record behind \<open>style\<close> after the call. The guard
  \<open>g_return_if_fail\<close> leaves it as it is when one of the five pointers is \<open>NULL\<close>. The four
  conditions read \<open>list[0]\<close>, \<open>list[1]\<close>, \<open>list[2]\<close> and \<open>list[3]\<close> in this order whenever
  \<open>list\<close> is not \<open>NULL\<close>.
\<close>

fun get_keyfile_style ::
  "externals \<Rightarrow> GKeyFile ptr \<Rightarrow> GKeyFile ptr \<Rightarrow> string ptr \<Rightarrow> HighlightingStyle ptr \<Rightarrow>
   HighlightingStyle ptr \<Rightarrow> fault + HighlightingStyle ptr" where
  "get_keyfile_style ext (Ptr cfg) (Ptr cfgh) (Ptr key_name) (Ptr default_style) (Ptr style) =
     (let list = or_else (g_key_file_get_string_list cfgh ''styling'' key_name)
                         (g_key_file_get_string_list cfg ''styling'' key_name)
      in
      and_then (elem list 0) (\<lambda>e0.
      let style = style\<lparr>foreground :=
            (case e0 of Ptr str \<Rightarrow> utils_strtod ext str
                      | NULL \<Rightarrow> rotate_rgb (foreground default_style))\<rparr> in
      and_then (elem list 1) (\<lambda>e1.
      let style = style\<lparr>background :=
            (case e1 of Ptr str \<Rightarrow> utils_strtod ext str
                      | NULL \<Rightarrow> rotate_rgb (background default_style))\<rparr> in
      and_then (elem list 2) (\<lambda>e2.
      let style = style\<lparr>bold :=
            (case e2 of Ptr str \<Rightarrow> utils_atob ext (Ptr str)
                      | NULL \<Rightarrow> bold default_style)\<rparr> in
      and_then (elem list 3) (\<lambda>e3.
      let style = style\<lparr>italic :=
            (case e3 of Ptr str \<Rightarrow> utils_atob ext (Ptr str)
                      | NULL \<Rightarrow> italic default_style)\<rparr> in
      Inr (Ptr style))))))"
| "get_keyfile_style ext config configh key_name default_style style = Inr style"

text \<open>
  \<open>get_keyfile_hex\<close>: the style record behind \<open>style\<close> after the call. \<open>fg\<close>, \<open>bg\<close>
  and \<open>bld\<close> are the parameters \<open>foreground\<close>, \<open>background\<close> and \<open>bold\<close> of the source.
\<close>

definition get_keyfile_hex ::
  "externals \<Rightarrow> GKeyFile ptr \<Rightarrow> GKeyFile ptr \<Rightarrow> string ptr \<Rightarrow> string \<Rightarrow>
   string ptr \<Rightarrow> string ptr \<Rightarrow> string ptr \<Rightarrow> HighlightingStyle \<Rightarrow> fault + HighlightingStyle" where
  "get_keyfile_hex ext config configh section key fg bg bld style =
     (case config of NULL \<Rightarrow> Inr style | Ptr cfg \<Rightarrow>
     (case configh of NULL \<Rightarrow> Inr style | Ptr cfgh \<Rightarrow>
     (case section of NULL \<Rightarrow> Inr style | Ptr sec \<Rightarrow>
       (let list = or_else (g_key_file_get_string_list cfgh sec key)
                           (g_key_file_get_string_list cfg sec key)
        in
        and_then (elem list 0) (\<lambda>e0.
        let style =
          (case e0 of
             Ptr str \<Rightarrow> style\<lparr>foreground := utils_strtod ext str\<rparr>
           | NULL \<Rightarrow> (case fg of Ptr str \<Rightarrow> style\<lparr>foreground := utils_strtod ext str\<rparr>
                               | NULL \<Rightarrow> style)) in
        and_then (elem list 1) (\<lambda>e1.
        let style =
          (case e1 of
             Ptr str \<Rightarrow> style\<lparr>background := utils_strtod ext str\<rparr>
           | NULL \<Rightarrow> (case bg of Ptr str \<Rightarrow> style\<lparr>background := utils_strtod ext str\<rparr>
                               | NULL \<Rightarrow> style)) in
        and_then (elem list 2) (\<lambda>e2.
        let style = style\<lparr>bold :=
          (case e2 of Ptr str \<Rightarrow> utils_atob ext (Ptr str) | NULL \<Rightarrow> utils_atob ext bld)\<rparr> in
        and_then (elem list 3) (\<lambda>e3.
        let style = style\<lparr>italic :=
          (case e3 of Ptr str \<Rightarrow> utils_atob ext (Ptr str) | NULL \<Rightarrow> False)\<rparr> in
        Inr style))))))))"

text \<open>
  The comparison \<open>list[i] == end\<close> of \<open>get_keyfile_int\<close>, for the value \<open>p\<close> of
  \<open>list[i]\<close>. When \<open>list[i]\<close> is a string, \<open>strtol\<close> has set \<open>end\<close> to
  \<open>list[i]\<close> plus the number of characters consumed, so the two are equal when nothing was
  consumed. When \<open>list[i]\<close> is \<open>NULL\<close>, \<open>strtol\<close> was not called and \<open>end\<close> is an
  uninitialised local: the outcome of the comparison is not determined by the program and is
  the parameter \<open>unspecified\<close>.
\<close>

definition at_end :: "externals \<Rightarrow> string ptr \<Rightarrow> bool \<Rightarrow> bool" where
  "at_end ext p unspecified =
     (case p of Ptr str \<Rightarrow> snd (strtol ext str) = 0 | NULL \<Rightarrow> unspecified)"

text \<open>
  \<open>get_keyfile_int\<close>: the style record behind \<open>style\<close> after the call. The \<open>long\<close>
  returned by \<open>strtol\<close> is converted to \<open>gint\<close> by the assignment. \<open>unspec\<close> gives the
  outcomes of the two comparisons with an uninitialised \<open>end1\<close>, \<open>end2\<close>.
\<close>

definition get_keyfile_int ::
  "externals \<Rightarrow> bool \<times> bool \<Rightarrow> GKeyFile ptr \<Rightarrow> GKeyFile ptr \<Rightarrow> string ptr \<Rightarrow> string \<Rightarrow>
   gint \<Rightarrow> gint \<Rightarrow> HighlightingStyle \<Rightarrow> fault + HighlightingStyle" where
  "get_keyfile_int ext unspec config configh section key fdefault_val sdefault_val style =
     (case config of NULL \<Rightarrow> Inr style | Ptr cfg \<Rightarrow>
     (case configh of NULL \<Rightarrow> Inr style | Ptr cfgh \<Rightarrow>
     (case section of NULL \<Rightarrow> Inr style | Ptr sec \<Rightarrow>
       (let list = or_else (g_key_file_get_string_list cfgh sec key)
                           (g_key_file_get_string_list cfg sec key)
        in
        and_then (elem list 0) (\<lambda>e0.
        let style = style\<lparr>foreground :=
          (case e0 of Ptr str \<Rightarrow> word_of_int (fst (strtol ext str))
                    | NULL \<Rightarrow> fdefault_val)\<rparr> in
        and_then (elem list 1) (\<lambda>e1.
        let style = style\<lparr>background :=
          (case e1 of Ptr str \<Rightarrow> word_of_int (fst (strtol ext str))
                    | NULL \<Rightarrow> sdefault_val)\<rparr> in
        (case list of
           NULL \<Rightarrow> Inr (style\<lparr>foreground := fdefault_val, background := sdefault_val\<rparr>)
         | Ptr l \<Rightarrow>
             and_then (list_at l 0) (\<lambda>p0.
             let style = (if at_end ext p0 (fst unspec)
                          then style\<lparr>foreground := fdefault_val\<rparr> else style) in
             and_then (list_at l 1) (\<lambda>p1.
             let style = (if at_end ext p1 (snd unspec)
                          then style\<lparr>background := sdefault_val\<rparr> else style) in
             Inr style)))))))))"

section \<open>Colour inversion and the widget calls\<close>

definition invert :: "highlighting_state \<Rightarrow> guint \<Rightarrow> guint" where
  "invert s icolour =
     (if cs_invert_all (common_style_set s) \<noteq> 0 then
        (let r = 0xffffff - icolour;
             g = 0xffffff - drop_bit 8 icolour;
             b = 0xffffff - drop_bit 16 icolour
         in r OR push_bit 8 g OR push_bit 16 b)
      else icolour)"

text \<open>
  A call \<open>SSM(sci, message, wParam, lParam)\<close> to the Scintilla widget, as the triple of
  message, \<open>wParam\<close> and \<open>lParam\<close>. The functions below return the calls they issue, in
  order. \<open>lParam\<close> is a colour (a \<open>guint\<close>) or one of the two flags of a style.
\<close>

datatype sci_message =
  SCI_STYLESETFORE | SCI_STYLESETBACK | SCI_STYLESETBOLD | SCI_STYLESETITALIC

datatype sci_lparam = Colour guint | Flag bool

type_synonym SSM = "sci_message \<times> int \<times> sci_lparam"

text \<open>\<open>*style_ptr\<close> of \<open>set_sci_style\<close>: the record the two branches point to.\<close>

definition style_ptr_of ::
  "externals \<Rightarrow> highlighting_state \<Rightarrow> int \<Rightarrow> int \<Rightarrow> fault + HighlightingStyle" where
  "style_ptr_of ext s ft styling_index =
     (if ft = GEANY_FILETYPES_NONE ext then
        (if 0 \<le> styling_index \<and> styling_index < int GCS_MAX
         then Inr (cs_styling (common_style_set s) (nat styling_index))
         else Inl Out_of_bounds)
      else if ft < 0 \<or> int (GEANY_MAX_BUILT_IN_FILETYPES ext - 1) \<le> ft then Inl Out_of_bounds
      else
        (case styling (style_sets s (nat ft)) of
           NULL \<Rightarrow> Inl Null_dereference
         | Ptr arr \<Rightarrow>
             if 0 \<le> styling_index \<and> styling_index < int (length arr)
             then Inr (arr ! nat styling_index)
             else Inl Out_of_bounds))"

definition set_sci_style ::
  "externals \<Rightarrow> highlighting_state \<Rightarrow> int \<Rightarrow> int \<Rightarrow> int \<Rightarrow> fault + SSM list" where
  "set_sci_style ext s style ft styling_index =
     and_then (style_ptr_of ext s ft styling_index) (\<lambda>style_ptr.
       Inr [(SCI_STYLESETFORE, style, Colour (invert s (foreground style_ptr))),
            (SCI_STYLESETBACK, style, Colour (invert s (background style_ptr))),
            (SCI_STYLESETBOLD, style, Flag (bold style_ptr)),
            (SCI_STYLESETITALIC, style, Flag (italic style_ptr))])"

section \<open>Loading the common style set\<close>

definition set_common_styling ::
  "nat \<Rightarrow> HighlightingStyle \<Rightarrow> highlighting_state \<Rightarrow> highlighting_state" where
  "set_common_styling i st s =
     s\<lparr>common_style_set := (common_style_set s)
         \<lparr>cs_styling := (cs_styling (common_style_set s))(i := st)\<rparr>\<rparr>"

definition set_folding_style ::
  "(FoldingStyle \<Rightarrow> FoldingStyle) \<Rightarrow> highlighting_state \<Rightarrow> highlighting_state" where
  "set_folding_style f s =
     s\<lparr>common_style_set := (common_style_set s)
         \<lparr>cs_folding_style := f (cs_folding_style (common_style_set s))\<rparr>\<rparr>"

text \<open>
  The call \<open>get_keyfile_hex(config, config_home, "styling", key, fg, bg, bld,
  &common_style_set.styling[i])\<close>.
\<close>

definition common_hex ::
  "externals \<Rightarrow> GKeyFile ptr \<Rightarrow> GKeyFile ptr \<Rightarrow> string \<Rightarrow> string \<Rightarrow> string \<Rightarrow> string \<Rightarrow> nat \<Rightarrow>
   highlighting_state \<Rightarrow> fault + highlighting_state" where
  "common_hex ext config config_home key fg bg bld i s =
     and_then
       (get_keyfile_hex ext config config_home (Ptr ''styling'') key (Ptr fg) (Ptr bg) (Ptr bld)
          (cs_styling (common_style_set s) i))
       (\<lambda>st. Inr (set_common_styling i st s))"

text \<open>
  The twelve calls of \<open>get_keyfile_hex\<close> at the head of \<open>styleset_common_init\<close>.
\<close>

definition common_hex_styles ::
  "externals \<Rightarrow> GKeyFile ptr \<Rightarrow> GKeyFile ptr \<Rightarrow> highlighting_state \<Rightarrow> fault + highlighting_state" where
  "common_hex_styles ext config config_home s =
     and_then (common_hex ext config config_home ''default''
       ''0x000000'' ''0xffffff'' ''false'' GCS_DEFAULT s) (\<lambda>s.
     and_then (common_hex ext config config_home ''selection''
       ''0xc0c0c0'' ''0x7f0000'' ''false'' GCS_SELECTION s) (\<lambda>s.
     and_then (common_hex ext config config_home ''brace_good''
       ''0x000000'' ''0xffffff'' ''false'' GCS_BRACE_GOOD s) (\<lambda>s.
     and_then (common_hex ext config config_home ''brace_bad''
       ''0xff0000'' ''0xffffff'' ''false'' GCS_BRACE_BAD s) (\<lambda>s.
     and_then (common_hex ext config config_home ''margin_linenumber''
       ''0x000000'' ''0xd0d0d0'' ''false'' GCS_MARGIN_LINENUMBER s) (\<lambda>s.
     and_then (common_hex ext config config_home ''margin_folding''
       ''0x000000'' ''0xdfdfdf'' ''false'' GCS_MARGIN_FOLDING s) (\<lambda>s.
     and_then (common_hex ext config config_home ''current_line''
       ''0x000000'' ''0xe5e5e5'' ''true'' GCS_CURRENT_LINE s) (\<lambda>s.
     and_then (common_hex ext config config_home ''caret''
       ''0x000000'' ''0x000000'' ''false'' GCS_CARET s) (\<lambda>s.
     and_then (common_hex ext config config_home ''indent_guide''
       ''0xc0c0c0'' ''0xffffff'' ''false'' GCS_INDENT_GUIDE s) (\<lambda>s.
     and_then (common_hex ext config config_home ''white_space''
       ''0xc0c0c0'' ''0xffffff'' ''true'' GCS_WHITE_SPACE s) (\<lambda>s.
     and_then (common_hex ext config config_home ''marker_line''
       ''0x000000'' ''0xffff00'' ''false'' GCS_MARKER_LINE s) (\<lambda>s.
     common_hex ext config config_home ''marker_search''
       ''0x000000'' ''0xB8F4B8'' ''false'' GCS_MARKER_SEARCH s)))))))))))"

text \<open>
  The block of eight \<open>get_keyfile_int\<close> calls through the local \<open>tmp_style\<close>, which is not
  initialised: \<open>tmp_style0\<close> is whatever it holds at first, and each call starts from what
  the one before left in it. \<open>unspec k\<close> belongs to call number \<open>k\<close>. The three bit-fields
  of the folding style keep the low 2, 2 and 3 bits of what is assigned to them.
\<close>

definition common_int_styles ::
  "externals \<Rightarrow> (nat \<Rightarrow> bool \<times> bool) \<Rightarrow> HighlightingStyle \<Rightarrow> GKeyFile ptr \<Rightarrow> GKeyFile ptr \<Rightarrow>
   highlighting_state \<Rightarrow> fault + highlighting_state" where
  "common_int_styles ext unspec tmp_style0 config config_home s =
     and_then (get_keyfile_int ext (unspec 0) config config_home (Ptr ''styling'')
       ''folding_style'' 1 1 tmp_style0) (\<lambda>tmp_style.
     let s = set_folding_style (\<lambda>f. f\<lparr>marker := ucast (foreground tmp_style)\<rparr>) s;
         s = set_folding_style (\<lambda>f. f\<lparr>lines := ucast (background tmp_style)\<rparr>) s in
     and_then (get_keyfile_int ext (unspec 1) config config_home (Ptr ''styling'')
       ''invert_all'' 0 0 tmp_style) (\<lambda>tmp_style.
     let s = s\<lparr>common_style_set := (common_style_set s)
                 \<lparr>cs_invert_all := foreground tmp_style\<rparr>\<rparr> in
     and_then (get_keyfile_int ext (unspec 2) config config_home (Ptr ''styling'')
       ''folding_horiz_line'' 2 0 tmp_style) (\<lambda>tmp_style.
     let s = set_folding_style (\<lambda>f. f\<lparr>draw_line := ucast (foreground tmp_style)\<rparr>) s in
     and_then (get_keyfile_int ext (unspec 3) config config_home (Ptr ''styling'')
       ''caret_width'' 1 0 tmp_style) (\<lambda>tmp_style.
     let s = set_common_styling GCS_CARET
               ((cs_styling (common_style_set s) GCS_CARET)
                  \<lparr>background := foreground tmp_style\<rparr>) s in
     and_then (get_keyfile_int ext (unspec 4) config config_home (Ptr ''styling'')
       ''line_wrap_visuals'' 3 0 tmp_style) (\<lambda>tmp_style.
     let s = set_common_styling GCS_LINE_WRAP_VISUALS
               ((cs_styling (common_style_set s) GCS_LINE_WRAP_VISUALS)
                  \<lparr>foreground := foreground tmp_style, background := background tmp_style\<rparr>) s in
     and_then (get_keyfile_int ext (unspec 5) config config_home (Ptr ''styling'')
       ''line_wrap_indent'' 0 0 tmp_style) (\<lambda>tmp_style.
     let s = set_common_styling GCS_LINE_WRAP_INDENT
               ((cs_styling (common_style_set s) GCS_LINE_WRAP_INDENT)
                  \<lparr>foreground := foreground tmp_style\<rparr>) s in
     and_then (get_keyfile_int ext (unspec 6) config config_home (Ptr ''styling'')
       ''translucency'' 256 256 tmp_style) (\<lambda>tmp_style.
     let s = set_common_styling GCS_TRANSLUCENCY
               ((cs_styling (common_style_set s) GCS_TRANSLUCENCY)
                  \<lparr>foreground := foreground tmp_style, background := background tmp_style\<rparr>) s in
     and_then (get_keyfile_int ext (unspec 7) config config_home (Ptr ''styling'')
       ''marker_translucency'' 256 256 tmp_style) (\<lambda>tmp_style.
     let s = set_common_styling GCS_MARKER_TRANSLUCENCY
               ((cs_styling (common_style_set s) GCS_MARKER_TRANSLUCENCY)
                  \<lparr>foreground := foreground tmp_style, background := background tmp_style\<rparr>) s in
     Inr s))))))))"

text \<open>
  \<open>styleset_common_init\<close>. The parameter \<open>ft_id\<close> is not used by the source either.
\<close>

definition styleset_common_init ::
  "externals \<Rightarrow> (nat \<Rightarrow> bool \<times> bool) \<Rightarrow> HighlightingStyle \<Rightarrow> int \<Rightarrow> GKeyFile ptr \<Rightarrow> GKeyFile ptr \<Rightarrow>
   highlighting_state \<Rightarrow> fault + highlighting_state" where
  "styleset_common_init ext unspec tmp_style0 ft_id config config_home s =
     (if common_style_set_valid s then Inr s
      else
        (let s = s\<lparr>common_style_set_valid := True\<rparr> in
         and_then (common_hex_styles ext config config_home s) (\<lambda>s.
         and_then (common_int_styles ext unspec tmp_style0 config config_home s) (\<lambda>s.
         let s = s\<lparr>common_style_set := (common_style_set s)
                     \<lparr>cs_wordchars := get_keyfile_wordchars ext config config_home\<rparr>\<rparr>;
             s = s\<lparr>whitespace_chars := get_keyfile_whitespace_chars config config_home\<rparr>
         in Inr s))))"

text \<open>
  The keys that \<open>styleset_common_init\<close> reads with \<open>get_keyfile_hex\<close> and with
  \<open>get_keyfile_int\<close>, and the condition under which none of these reads leaves its list:
  wherever a list is found, it holds three strings or more for \<open>get_keyfile_hex\<close> (which
  reads \<open>list[0]\<close> to \<open>list[3]\<close>), one string or more for \<open>get_keyfile_int\<close> (which reads
  \<open>list[0]\<close> and \<open>list[1]\<close>).
\<close>

definition common_hex_keys :: "string list" where
  "common_hex_keys =
     [''default'', ''selection'', ''brace_good'', ''brace_bad'', ''margin_linenumber'',
      ''margin_folding'', ''current_line'', ''caret'', ''indent_guide'', ''white_space'',
      ''marker_line'', ''marker_search'']"

definition common_int_keys :: "string list" where
  "common_int_keys =
     [''folding_style'', ''invert_all'', ''folding_horiz_line'', ''caret_width'',
      ''line_wrap_visuals'', ''line_wrap_indent'', ''translucency'', ''marker_translucency'']"

definition list_long_enough ::
  "nat \<Rightarrow> GKeyFile ptr \<Rightarrow> GKeyFile ptr \<Rightarrow> string \<Rightarrow> string \<Rightarrow> bool" where
  "list_long_enough n config configh section key =
     (case config of
        NULL \<Rightarrow> True
      | Ptr cfg \<Rightarrow>
          (case configh of
             NULL \<Rightarrow> True
           | Ptr cfgh \<Rightarrow>
               (case or_else (g_key_file_get_string_list cfgh section key)
                             (g_key_file_get_string_list cfg section key) of
                  NULL \<Rightarrow> True
                | Ptr l \<Rightarrow> n \<le> length l)))"

definition common_lists_long_enough :: "GKeyFile ptr \<Rightarrow> GKeyFile ptr \<Rightarrow> bool" where
  "common_lists_long_enough config config_home =
     (list_all (list_long_enough 3 config config_home ''styling'') common_hex_keys \<and>
      list_all (list_long_enough 1 config config_home ''styling'') common_int_keys)"

section \<open>Looking a style up\<close>

text \<open>
  \<open>highlighting_get_style\<close>. The pointer it returns, \<open>&style_sets[ft_id].styling[style_id]\<close>,
  is the pair of the two indices; the static variables may change through
  \<open>filetypes_load_config\<close>. The read of \<open>style_sets[ft_id].styling\<close> is a read of element
  \<open>ft_id\<close> of an array of \<open>GEANY_MAX_BUILT_IN_FILETYPES - 1\<close> elements.
\<close>

definition highlighting_get_style ::
  "externals \<Rightarrow> highlighting_state \<Rightarrow> int \<Rightarrow> int \<Rightarrow>
   fault + ((nat \<times> int) ptr \<times> highlighting_state)" where
  "highlighting_get_style ext s ft_id style_id =
     (if ft_id < 0 \<or> ft_id > int (GEANY_MAX_BUILT_IN_FILETYPES ext) then Inr (NULL, s)
      else if int (GEANY_MAX_BUILT_IN_FILETYPES ext - 1) \<le> ft_id then Inl Out_of_bounds
      else
        (let s = (if styling (style_sets s (nat ft_id)) = NULL
                  then filetypes_load_config ext ft_id s else s)
         in Inr (Ptr (nat ft_id, style_id), s)))"

section \<open>The layering, as the specification words it\<close>


text \<open>
  "Either keyfile pointer is \<open>NULL\<close> or the requested key is absent from both keyfiles".
\<close>

definition no_value :: "GKeyFile ptr \<Rightarrow> GKeyFile ptr \<Rightarrow> string \<Rightarrow> string \<Rightarrow> bool" where
  "no_value config configh section key =
     (case config of
        NULL \<Rightarrow> True
      | Ptr cfg \<Rightarrow>
          (case configh of
             NULL \<Rightarrow> True
           | Ptr cfgh \<Rightarrow> g_key_file_get_string cfgh section key = NULL \<and>
                         g_key_file_get_string cfg section key = NULL))"

section \<open>Concrete inputs\<close>

text \<open>
  The static variables as the C runtime initialises them: every pointer \<open>NULL\<close>, every
  number zero.
\<close>

definition zero_style :: HighlightingStyle where
  "zero_style = \<lparr>foreground = 0, background = 0, bold = False, italic = False\<rparr>"

definition initial_state :: highlighting_state where
  "initial_state =
     \<lparr>style_sets = (\<lambda>i. \<lparr>styling = NULL, keywords' = NULL, wordchars = NULL\<rparr>),
      common_style_set =
        \<lparr>cs_styling = (\<lambda>i. zero_style),
         cs_folding_style = \<lparr>marker = 0, lines = 0, draw_line = 0\<rparr>,
         cs_invert_all = 0,
         cs_wordchars = NULL\<rparr>,
      whitespace_chars = NULL,
      common_style_set_valid = False\<rparr>"

text \<open>The same with \<open>invert_all=1\<close> loaded.\<close>

definition inverting_state :: highlighting_state where
  "inverting_state =
     initial_state\<lparr>common_style_set :=
       (common_style_set initial_state)\<lparr>cs_invert_all := 1\<rparr>\<rparr>"

text \<open>
  Stand-ins for the external functions, enough to run the model on the strings of the
  configuration files: hexadecimal \<open>0x...\<close> numbers, \<open>true\<close>/\<open>TRUE\<close>, decimal
  numbers.
\<close>

definition digit_value :: "char \<Rightarrow> nat" where
  "digit_value c =
     (if c \<in> set ''0123456789'' then of_char c - 48
      else if c \<in> set ''abcdef'' then of_char c - 87
      else if c \<in> set ''ABCDEF'' then of_char c - 55
      else 0)"

definition sample_strtod :: "string \<Rightarrow> gint" where
  "sample_strtod str =
     (case str of
        c0 # c1 # ds \<Rightarrow>
          if c0 = CHR ''0'' \<and> c1 = CHR ''x''
          then foldl (\<lambda>a d. 16 * a + of_nat (digit_value d)) 0 ds
          else 0
      | _ \<Rightarrow> 0)"

definition sample_atob :: "string ptr \<Rightarrow> bool" where
  "sample_atob p = (p = Ptr ''true'' \<or> p = Ptr ''TRUE'')"

text \<open>
  \<open>strtol\<close> in base 10: leading white space, an optional sign, then decimal digits; nothing
  is consumed when no digit follows; the value is kept within the range of a 64-bit
  \<open>long\<close>.
\<close>

definition is_space :: "char \<Rightarrow> bool" where
  "is_space c = (c \<in> set [CHR '' '', CHR 0x09, CHR 0x0A, CHR 0x0B, CHR 0x0C, CHR 0x0D])"

definition sample_strtol :: "string \<Rightarrow> int \<times> nat" where
  "sample_strtol str =
     (let blanks = takeWhile is_space str;
          rest = dropWhile is_space str;
          sign = (case rest of
                    c # cs \<Rightarrow> if c = CHR ''-'' \<or> c = CHR ''+'' then [c] else []
                  | [] \<Rightarrow> []);
          ds = takeWhile (\<lambda>c. c \<in> set ''0123456789'') (drop (length sign) rest);
          n = foldl (\<lambda>a d. 10 * a + int (digit_value d)) 0 ds
      in if ds = [] then (0, 0)
         else (max (- (2 ^ 63)) (min (2 ^ 63 - 1) (if sign = ''-'' then - n else n)),
               length blanks + length sign + length ds))"

definition sample_externals :: externals where
  "sample_externals =
     \<lparr>utils_strtod = sample_strtod,
      utils_atob = sample_atob,
      strtol = sample_strtol,
      GEANY_WORDCHARS = ''_abcdefghijklmnopqrstuvwxyzABCDEFGHIJKLMNOPQRSTUVWXYZ0123456789'',
      GEANY_MAX_BUILT_IN_FILETYPES = 33,
      GEANY_FILETYPES_NONE = 32,
      filetypes_load_config = (\<lambda>ft s. s)\<rparr>"

text \<open>A keyfile without any key, and keyfiles holding one entry.\<close>

definition empty_keyfile :: GKeyFile where
  "empty_keyfile =
     \<lparr>g_key_file_get_string = (\<lambda>g k. NULL),
      g_key_file_get_string_list = (\<lambda>g k. NULL)\<rparr>"

definition keyfile_with_string :: "string \<Rightarrow> string \<Rightarrow> string \<Rightarrow> GKeyFile" where
  "keyfile_with_string grp key v =
     \<lparr>g_key_file_get_string = (\<lambda>g k. if g = grp \<and> k = key then Ptr v else NULL),
      g_key_file_get_string_list = (\<lambda>g k. NULL)\<rparr>"

definition keyfile_with_list :: "string \<Rightarrow> string \<Rightarrow> string list \<Rightarrow> GKeyFile" where
  "keyfile_with_list grp key l =
     \<lparr>g_key_file_get_string = (\<lambda>g k. NULL),
      g_key_file_get_string_list = (\<lambda>g k. if g = grp \<and> k = key then Ptr l else NULL)\<rparr>"

text \<open>The default style \<open>gsd_comment_doc\<close> of the source.\<close>

definition gsd_comment_doc :: HighlightingStyle where
  "gsd_comment_doc = \<lparr>foreground = 0x3f5fbf, background = 0xffffff, bold = True, italic = False\<rparr>"

text \<open>
  The static variables after a filetype (number 2) got a styling array of two styles and a
  keyword array of two slots.
\<close>

definition loaded_state :: highlighting_state where
  "loaded_state =
     initial_state\<lparr>style_sets := (style_sets initial_state)
       (2 := \<lparr>styling = Ptr [zero_style, gsd_comment_doc],
              keywords' = Ptr [NULL, NULL],
              wordchars = NULL\<rparr>)\<rparr>"

section \<open>Masks and shifts on colours\<close>

lemma byte_mask_0: "(0xFF :: 32 word) = mask 8"
  by (simp add: mask_eq_exp_minus_1)

lemma byte_mask_1: "(0xFF00 :: 32 word) = push_bit 8 (mask 8)"
  by (simp add: mask_eq_exp_minus_1 push_bit_eq_mult)

lemma byte_mask_2: "(0xFF0000 :: 32 word) = push_bit 16 (mask 8)"
  by (simp add: mask_eq_exp_minus_1 push_bit_eq_mult)

lemma colour_mask: "(0xFFFFFF :: 32 word) = mask 24"
  by (simp add: mask_eq_exp_minus_1)

lemma red_byte: "signed_drop_bit 16 (c AND 0xFF0000) = take_bit 8 (drop_bit 16 c)"
  for c :: "32 word"
  unfolding byte_mask_2 by (rule bit_eqI) (auto simp add: bit_simps)

lemma green_byte: "c AND 0xFF00 = push_bit 8 (take_bit 8 (drop_bit 8 c))"
  for c :: "32 word"
  unfolding byte_mask_1 by (rule bit_eqI) (auto simp add: bit_simps)

lemma blue_byte: "c AND 0xFF = take_bit 8 c"
  for c :: "32 word"
  unfolding byte_mask_0 by (simp add: take_bit_eq_mask)

lemma colour_take_bit: "c \<le> 0xffffff \<Longrightarrow> take_bit 24 c = c"
  for c :: "32 word"
proof -
  assume "c \<le> 0xffffff"
  then have "unat c < 2 ^ 24" by (simp add: word_le_nat_alt)
  then have "c < 2 ^ 24" by (simp add: word_less_nat_alt)
  then have "c AND mask 24 = c" by (rule less_mask_eq)
  then show ?thesis by (simp add: take_bit_eq_mask)
qed

lemma colour_bit: "c \<le> 0xffffff \<Longrightarrow> bit c n \<Longrightarrow> n < 24"
  for c :: "32 word"
  by (metis colour_take_bit bit_take_bit_iff)

lemmas nat_bit_arith =
  take_bit_eq_mod [where 'a = nat] drop_bit_eq_div [where 'a = nat]
  push_bit_eq_mult [where 'a = nat]

lemma unat_red_byte: "unat (take_bit 8 (drop_bit 16 c)) = unat c div 65536 mod 256"
  for c :: "32 word"
  by (simp add: unsigned_take_bit_eq unat_drop_bit_eq nat_bit_arith)

lemma unat_green_byte:
  "unat (push_bit 8 (take_bit 8 (drop_bit 8 c))) = unat c div 256 mod 256 * 256"
  for c :: "32 word"
  by (simp add: unsigned_push_bit_eq unsigned_take_bit_eq unat_drop_bit_eq nat_bit_arith)

lemma unat_blue_byte: "unat (push_bit 16 (take_bit 8 c)) = unat c mod 256 * 65536"
  for c :: "32 word"
  by (simp add: unsigned_push_bit_eq unsigned_take_bit_eq unat_drop_bit_eq nat_bit_arith)

lemma unat_rotate_rgb:
  "unat (rotate_rgb c) =
     unat c mod 256 * 65536 + unat c div 256 mod 256 * 256 + unat c div 65536 mod 256"
  unfolding rotate_rgb_def red_byte green_byte blue_byte
  by (simp add: unat_word_ariths unat_red_byte unat_green_byte unat_blue_byte)

lemma rotate_rgb_or:
  "rotate_rgb c =
     take_bit 8 (drop_bit 16 c) OR push_bit 8 (take_bit 8 (drop_bit 8 c)) OR
     push_bit 16 (take_bit 8 c)"
proof -
  have 1: "take_bit 8 (drop_bit 16 c) + push_bit 8 (take_bit 8 (drop_bit 8 c)) =
           take_bit 8 (drop_bit 16 c) OR push_bit 8 (take_bit 8 (drop_bit 8 c))"
    by (rule disjunctive_add) (auto simp add: bit_simps)
  have 2: "(take_bit 8 (drop_bit 16 c) OR push_bit 8 (take_bit 8 (drop_bit 8 c))) +
             push_bit 16 (take_bit 8 c) =
           (take_bit 8 (drop_bit 16 c) OR push_bit 8 (take_bit 8 (drop_bit 8 c))) OR
             push_bit 16 (take_bit 8 c)"
    by (rule disjunctive_add) (auto simp add: bit_simps)
  show ?thesis
    unfolding rotate_rgb_def red_byte green_byte blue_byte by (simp only: 1 2 or.assoc)
qed

lemma bit_rotate_rgb:
  "bit (rotate_rgb c) n \<longleftrightarrow>
     n < 8 \<and> bit c (16 + n) \<or> 8 \<le> n \<and> n < 16 \<and> bit c n \<or>
     16 \<le> n \<and> n < 24 \<and> bit c (n - 16)"
  unfolding rotate_rgb_or by (auto simp add: bit_simps)

lemma rotate_rgb_twice: "c \<le> 0xffffff \<Longrightarrow> rotate_rgb (rotate_rgb c) = c"
proof (rule bit_eqI)
  fix n :: nat
  assume c: "c \<le> 0xffffff"
  consider "n < 8" | "8 \<le> n" "n < 16" | "16 \<le> n" "n < 24" | "24 \<le> n"
    by linarith
  then show "bit (rotate_rgb (rotate_rgb c)) n = bit c n"
  proof cases
    case 1
    then show ?thesis by (simp add: bit_rotate_rgb)
  next
    case 2
    then show ?thesis by (simp add: bit_rotate_rgb)
  next
    case 3
    then have "n - 16 < 8" by linarith
    with 3 show ?thesis by (simp add: bit_rotate_rgb)
  next
    case 4
    then show ?thesis using colour_bit [OF c, of n] by (auto simp add: bit_rotate_rgb)
  qed
qed

lemma colour_minus: "take_bit 24 x = x \<Longrightarrow> 0xffffff - x = take_bit 24 (NOT x)"
  for x :: "32 word"
  unfolding colour_mask by (simp add: take_bit_not_eq_mask_diff)

lemma invert_complement:
  assumes inv: "cs_invert_all (common_style_set s) \<noteq> 0" and c: "c \<le> 0xffffff"
  shows "invert s c = NOT c"
proof -
  note nb = colour_bit [OF c]
  have c0: "take_bit 24 c = c" using c by (rule colour_take_bit)
  have c8: "take_bit 24 (drop_bit 8 c) = drop_bit 8 c"
    by (rule bit_eqI) (auto simp add: bit_simps dest: nb)
  have c16: "take_bit 24 (drop_bit 16 c) = drop_bit 16 c"
    by (rule bit_eqI) (auto simp add: bit_simps dest: nb)
  have "take_bit 24 (NOT c) OR push_bit 8 (take_bit 24 (NOT (drop_bit 8 c))) OR
          push_bit 16 (take_bit 24 (NOT (drop_bit 16 c))) = NOT c"
    by (rule bit_eqI) (auto simp add: bit_simps dest: nb)
  then show ?thesis
    using inv by (simp add: invert_def Let_def colour_minus [OF c0] colour_minus [OF c8]
      colour_minus [OF c16])
qed

lemma byte_minus: "0xff - take_bit 8 x = take_bit 8 (NOT x)"
  for x :: "32 word"
  unfolding byte_mask_0 by (simp add: take_bit_not_eq_mask_diff)

section \<open>Reading the string lists\<close>

lemma elem_NULL: "elem NULL i = Inr NULL"
  by (simp add: elem_def)

lemma elem_present: "i < length l \<Longrightarrow> elem (Ptr l) i = Inr (Ptr (l ! i))"
  by (simp add: elem_def list_at_def)

lemma elem_terminator: "elem (Ptr l) (length l) = Inr NULL"
  by (simp add: elem_def list_at_def)

lemma elem_past_terminator: "length l < i \<Longrightarrow> elem (Ptr l) i = Inl Out_of_bounds"
  by (simp add: elem_def list_at_def)

lemma elem_in_bounds:
  "i \<le> length l \<Longrightarrow> elem (Ptr l) i = Inr (if i < length l then Ptr (l ! i) else NULL)"
  by (simp add: elem_def list_at_def)

lemma list_at_in_bounds:
  "i \<le> length l \<Longrightarrow> list_at l i = Inr (if i < length l then Ptr (l ! i) else NULL)"
  by (simp add: list_at_def)

lemma and_then_Inr: "and_then (Inr x) f = f x"
  by (simp add: and_then_def)

lemma and_then_Inl: "and_then (Inl e) f = Inl e"
  by (simp add: and_then_def)



lemma get_keyfile_style_short_list:
  assumes "or_else (g_key_file_get_string_list cfgh ''styling'' key)
             (g_key_file_get_string_list cfg ''styling'' key) = Ptr l"
    and "length l < 3"
  shows "get_keyfile_style ext (Ptr cfg) (Ptr cfgh) (Ptr key) (Ptr d) (Ptr st) =
           Inl Out_of_bounds"
proof -
  consider "length l = 0" | "length l = 1" | "length l = 2"
    using assms(2) by linarith
  then show ?thesis
  proof cases
    case 1
    then show ?thesis
      using assms(1) by (simp add: elem_in_bounds elem_past_terminator and_then_Inr and_then_Inl)
  next
    case 2
    then show ?thesis
      using assms(1) by (simp add: elem_in_bounds elem_past_terminator and_then_Inr and_then_Inl)
  next
    case 3
    then show ?thesis
      using assms(1) by (simp add: elem_in_bounds elem_past_terminator and_then_Inr and_then_Inl)
  qed
qed



lemma get_keyfile_hex_short_list:
  assumes "or_else (g_key_file_get_string_list cfgh sec key)
             (g_key_file_get_string_list cfg sec key) = Ptr l"
    and "length l < 3"
  shows "get_keyfile_hex ext (Ptr cfg) (Ptr cfgh) (Ptr sec) key fg bg bld st = Inl Out_of_bounds"
proof -
  consider "length l = 0" | "length l = 1" | "length l = 2"
    using assms(2) by linarith
  then show ?thesis
  proof cases
    case 1
    then show ?thesis
      using assms(1)
      by (simp add: get_keyfile_hex_def elem_in_bounds elem_past_terminator and_then_Inr
            and_then_Inl)
  next
    case 2
    then show ?thesis
      using assms(1)
      by (simp add: get_keyfile_hex_def elem_in_bounds elem_past_terminator and_then_Inr
            and_then_Inl)
  next
    case 3
    then show ?thesis
      using assms(1)
      by (simp add: get_keyfile_hex_def elem_in_bounds elem_past_terminator and_then_Inr
            and_then_Inl)
  qed
qed

lemma get_keyfile_hex_no_fault:
  assumes "or_else (g_key_file_get_string_list cfgh sec key)
             (g_key_file_get_string_list cfg sec key) = list"
    and "list = NULL \<or> (\<exists>l. list = Ptr l \<and> 3 \<le> length l)"
  shows "\<exists>st'. get_keyfile_hex ext (Ptr cfg) (Ptr cfgh) (Ptr sec) key fg bg bld st = Inr st'"
  using assms
  by (auto simp add: get_keyfile_hex_def elem_NULL elem_in_bounds and_then_Inr Let_def)

text \<open>\<open>get_keyfile_int\<close> on the list the two keyfiles give.\<close>

lemma get_keyfile_int_no_list:
  assumes "or_else (g_key_file_get_string_list cfgh sec key)
             (g_key_file_get_string_list cfg sec key) = NULL"
  shows "get_keyfile_int ext u (Ptr cfg) (Ptr cfgh) (Ptr sec) key fd sd st =
           Inr (st\<lparr>foreground := fd, background := sd\<rparr>)"
  using assms by (simp add: get_keyfile_int_def elem_NULL and_then_Inr)

lemma get_keyfile_int_list:
  assumes "or_else (g_key_file_get_string_list cfgh sec key)
             (g_key_file_get_string_list cfg sec key) = Ptr l"
    and "l \<noteq> []"
  shows "get_keyfile_int ext u (Ptr cfg) (Ptr cfgh) (Ptr sec) key fd sd st =
           Inr (st\<lparr>foreground :=
                      (if snd (strtol ext (l ! 0)) = 0 then fd
                       else word_of_int (fst (strtol ext (l ! 0)))),
                    background :=
                      (if length l < 2 \<or> snd (strtol ext (l ! 1)) = 0 then sd
                       else word_of_int (fst (strtol ext (l ! 1))))\<rparr>)"
proof -
  from assms(2) have len: "0 < length l" "1 \<le> length l"
    by (cases l; simp)+
  show ?thesis
    using assms(1) len
    by (cases u) (auto simp add: get_keyfile_int_def elem_in_bounds list_at_in_bounds
          and_then_Inr at_end_def Let_def)
qed

lemma get_keyfile_int_empty_list:
  assumes "or_else (g_key_file_get_string_list cfgh sec key)
             (g_key_file_get_string_list cfg sec key) = Ptr []"
  shows "get_keyfile_int ext u (Ptr cfg) (Ptr cfgh) (Ptr sec) key fd sd st = Inl Out_of_bounds"
  using assms
  by (simp add: get_keyfile_int_def elem_in_bounds elem_past_terminator and_then_Inr and_then_Inl)



section \<open>Facts about loading the common style set\<close>

lemma and_then_eq_Inr: "and_then m f = Inr y \<longleftrightarrow> (\<exists>x. m = Inr x \<and> f x = Inr y)"
  by (cases m) (simp_all add: and_then_def)

lemma set_common_styling_frame:
  "common_style_set_valid (set_common_styling i st s) = common_style_set_valid s"
  "whitespace_chars (set_common_styling i st s) = whitespace_chars s"
  "style_sets (set_common_styling i st s) = style_sets s"
  by (simp_all add: set_common_styling_def)

lemma set_folding_style_frame:
  "common_style_set_valid (set_folding_style f s) = common_style_set_valid s"
  "whitespace_chars (set_folding_style f s) = whitespace_chars s"
  "style_sets (set_folding_style f s) = style_sets s"
  by (simp_all add: set_folding_style_def)

lemma common_hex_frame:
  assumes "common_hex ext config config_home key fg bg bld i s = Inr s'"
  shows "common_style_set_valid s' = common_style_set_valid s"
  using assms by (auto simp add: common_hex_def and_then_eq_Inr set_common_styling_frame)

lemma common_hex_styles_frame:
  assumes "common_hex_styles ext config config_home s = Inr s'"
  shows "common_style_set_valid s' = common_style_set_valid s"
  using assms unfolding common_hex_styles_def and_then_eq_Inr
  by (auto dest!: common_hex_frame)

lemma common_int_styles_frame:
  assumes "common_int_styles ext unspec tmp_style0 config config_home s = Inr s'"
  shows "common_style_set_valid s' = common_style_set_valid s"
  using assms unfolding common_int_styles_def and_then_eq_Inr Let_def
  by (auto simp add: set_common_styling_frame set_folding_style_frame)

text \<open>
  When every list that is found is long enough for its reader, the first run ends without a
  fault.
\<close>

lemma and_then_runs:
  "(\<exists>x. m = Inr x) \<Longrightarrow> (\<And>x. \<exists>y. f x = Inr y) \<Longrightarrow> \<exists>y. and_then m f = Inr y"
  by (auto simp add: and_then_def)

lemma get_keyfile_hex_returns:
  assumes "list_long_enough 3 config configh sec key"
  shows "\<exists>st'. get_keyfile_hex ext config configh (Ptr sec) key fg bg bld st = Inr st'"
proof (cases config)
  case NULL
  then show ?thesis by (simp add: get_keyfile_hex_def)
next
  case cfg: (Ptr cfg)
  show ?thesis
  proof (cases configh)
    case NULL
    then show ?thesis by (simp add: get_keyfile_hex_def cfg)
  next
    case cfgh: (Ptr cfgh)
    have "or_else (g_key_file_get_string_list cfgh sec key)
            (g_key_file_get_string_list cfg sec key) = NULL \<or>
          (\<exists>l. or_else (g_key_file_get_string_list cfgh sec key)
            (g_key_file_get_string_list cfg sec key) = Ptr l \<and> 3 \<le> length l)"
      using assms by (simp add: list_long_enough_def cfg cfgh split: ptr.splits)
    then show ?thesis
      unfolding cfg cfgh by (intro get_keyfile_hex_no_fault) simp_all
  qed
qed

lemma get_keyfile_int_returns:
  assumes "list_long_enough 1 config configh sec key"
  shows "\<exists>st'. get_keyfile_int ext u config configh (Ptr sec) key fd sd st = Inr st'"
proof (cases config)
  case NULL
  then show ?thesis by (simp add: get_keyfile_int_def)
next
  case cfg: (Ptr cfg)
  show ?thesis
  proof (cases configh)
    case NULL
    then show ?thesis by (simp add: get_keyfile_int_def cfg)
  next
    case cfgh: (Ptr cfgh)
    show ?thesis
    proof (cases "or_else (g_key_file_get_string_list cfgh sec key)
            (g_key_file_get_string_list cfg sec key)")
      case NULL
      then show ?thesis unfolding cfg cfgh by (simp add: get_keyfile_int_no_list)
    next
      case (Ptr l)
      moreover from this assms have "l \<noteq> []"
        by (auto simp add: list_long_enough_def cfg cfgh)
      ultimately show ?thesis unfolding cfg cfgh by (simp add: get_keyfile_int_list)
    qed
  qed
qed

lemma common_hex_returns:
  assumes "list_long_enough 3 config config_home ''styling'' key"
  shows "\<exists>s'. common_hex ext config config_home key fg bg bld i s = Inr s'"
  unfolding common_hex_def
  by (intro and_then_runs get_keyfile_hex_returns assms) simp

lemma common_hex_styles_returns:
  assumes "list_all (list_long_enough 3 config config_home ''styling'') common_hex_keys"
  shows "\<exists>s'. common_hex_styles ext config config_home s = Inr s'"
  using assms unfolding common_hex_styles_def common_hex_keys_def
  by (intro and_then_runs common_hex_returns) simp_all

lemma common_int_styles_returns:
  assumes "list_all (list_long_enough 1 config config_home ''styling'') common_int_keys"
  shows "\<exists>s'. common_int_styles ext unspec tmp_style0 config config_home s = Inr s'"
  using assms unfolding common_int_styles_def common_int_keys_def Let_def
  by (intro and_then_runs get_keyfile_int_returns) simp_all

lemma styleset_common_init_returns:
  assumes "common_lists_long_enough config config_home"
  shows "\<exists>s'. styleset_common_init ext unspec tmp_style0 ft_id config config_home s = Inr s'"
proof (cases "common_style_set_valid s")
  case True
  then show ?thesis by (simp add: styleset_common_init_def)
next
  case False
  have "\<exists>s'. and_then
           (common_hex_styles ext config config_home (s\<lparr>common_style_set_valid := True\<rparr>))
           (\<lambda>s. and_then (common_int_styles ext unspec tmp_style0 config config_home s)
              (\<lambda>s. Inr (s\<lparr>common_style_set := (common_style_set s)
                              \<lparr>cs_wordchars := get_keyfile_wordchars ext config config_home\<rparr>,
                            whitespace_chars :=
                              get_keyfile_whitespace_chars config config_home\<rparr>))) = Inr s'"
    using assms unfolding common_lists_long_enough_def
    by (intro and_then_runs common_hex_styles_returns common_int_styles_returns) simp_all
  with False show ?thesis by (simp add: styleset_common_init_def Let_def)
qed

text \<open>
  What the entries of the common style set are after the reads: each holds what its reader
  gave for its key.
\<close>

lemmas GCS_defs =
  GCS_DEFAULT_def GCS_SELECTION_def GCS_BRACE_GOOD_def GCS_BRACE_BAD_def
  GCS_MARGIN_LINENUMBER_def GCS_MARGIN_FOLDING_def GCS_CURRENT_LINE_def GCS_CARET_def
  GCS_INDENT_GUIDE_def GCS_WHITE_SPACE_def GCS_LINE_WRAP_VISUALS_def GCS_LINE_WRAP_INDENT_def
  GCS_TRANSLUCENCY_def GCS_MARKER_LINE_def GCS_MARKER_SEARCH_def GCS_MARKER_TRANSLUCENCY_def

lemma common_hex_result:
  "common_hex ext config config_home key fg bg bld i s = Inr s' \<longleftrightarrow>
     (\<exists>st. get_keyfile_hex ext config config_home (Ptr ''styling'') key (Ptr fg) (Ptr bg)
             (Ptr bld) (cs_styling (common_style_set s) i) = Inr st \<and>
           s' = set_common_styling i st s)"
  by (auto simp add: common_hex_def and_then_eq_Inr)

lemma cs_styling_set_common_styling:
  "cs_styling (common_style_set (set_common_styling i st s)) j =
     (if j = i then st else cs_styling (common_style_set s) j)"
  by (simp add: set_common_styling_def)

lemma set_common_styling_others:
  "cs_folding_style (common_style_set (set_common_styling i st s)) =
     cs_folding_style (common_style_set s)"
  "cs_invert_all (common_style_set (set_common_styling i st s)) =
     cs_invert_all (common_style_set s)"
  by (simp_all add: set_common_styling_def)

lemma common_hex_styles_result:
  assumes "common_hex_styles ext config config_home s = Inr s'"
  shows "get_keyfile_hex ext config config_home (Ptr ''styling'') ''default''
           (Ptr ''0x000000'') (Ptr ''0xffffff'') (Ptr ''false'')
           (cs_styling (common_style_set s) GCS_DEFAULT) =
         Inr (cs_styling (common_style_set s') GCS_DEFAULT)"
    and "get_keyfile_hex ext config config_home (Ptr ''styling'') ''selection''
           (Ptr ''0xc0c0c0'') (Ptr ''0x7f0000'') (Ptr ''false'')
           (cs_styling (common_style_set s) GCS_SELECTION) =
         Inr (cs_styling (common_style_set s') GCS_SELECTION)"
    and "get_keyfile_hex ext config config_home (Ptr ''styling'') ''brace_good''
           (Ptr ''0x000000'') (Ptr ''0xffffff'') (Ptr ''false'')
           (cs_styling (common_style_set s) GCS_BRACE_GOOD) =
         Inr (cs_styling (common_style_set s') GCS_BRACE_GOOD)"
    and "get_keyfile_hex ext config config_home (Ptr ''styling'') ''brace_bad''
           (Ptr ''0xff0000'') (Ptr ''0xffffff'') (Ptr ''false'')
           (cs_styling (common_style_set s) GCS_BRACE_BAD) =
         Inr (cs_styling (common_style_set s') GCS_BRACE_BAD)"
    and "get_keyfile_hex ext config config_home (Ptr ''styling'') ''margin_linenumber''
           (Ptr ''0x000000'') (Ptr ''0xd0d0d0'') (Ptr ''false'')
           (cs_styling (common_style_set s) GCS_MARGIN_LINENUMBER) =
         Inr (cs_styling (common_style_set s') GCS_MARGIN_LINENUMBER)"
    and "get_keyfile_hex ext config config_home (Ptr ''styling'') ''margin_folding''
           (Ptr ''0x000000'') (Ptr ''0xdfdfdf'') (Ptr ''false'')
           (cs_styling (common_style_set s) GCS_MARGIN_FOLDING) =
         Inr (cs_styling (common_style_set s') GCS_MARGIN_FOLDING)"
    and "get_keyfile_hex ext config config_home (Ptr ''styling'') ''current_line''
           (Ptr ''0x000000'') (Ptr ''0xe5e5e5'') (Ptr ''true'')
           (cs_styling (common_style_set s) GCS_CURRENT_LINE) =
         Inr (cs_styling (common_style_set s') GCS_CURRENT_LINE)"
    and "get_keyfile_hex ext config config_home (Ptr ''styling'') ''caret''
           (Ptr ''0x000000'') (Ptr ''0x000000'') (Ptr ''false'')
           (cs_styling (common_style_set s) GCS_CARET) =
         Inr (cs_styling (common_style_set s') GCS_CARET)"
    and "get_keyfile_hex ext config config_home (Ptr ''styling'') ''indent_guide''
           (Ptr ''0xc0c0c0'') (Ptr ''0xffffff'') (Ptr ''false'')
           (cs_styling (common_style_set s) GCS_INDENT_GUIDE) =
         Inr (cs_styling (common_style_set s') GCS_INDENT_GUIDE)"
    and "get_keyfile_hex ext config config_home (Ptr ''styling'') ''white_space''
           (Ptr ''0xc0c0c0'') (Ptr ''0xffffff'') (Ptr ''true'')
           (cs_styling (common_style_set s) GCS_WHITE_SPACE) =
         Inr (cs_styling (common_style_set s') GCS_WHITE_SPACE)"
    and "get_keyfile_hex ext config config_home (Ptr ''styling'') ''marker_line''
           (Ptr ''0x000000'') (Ptr ''0xffff00'') (Ptr ''false'')
           (cs_styling (common_style_set s) GCS_MARKER_LINE) =
         Inr (cs_styling (common_style_set s') GCS_MARKER_LINE)"
    and "get_keyfile_hex ext config config_home (Ptr ''styling'') ''marker_search''
           (Ptr ''0x000000'') (Ptr ''0xB8F4B8'') (Ptr ''false'')
           (cs_styling (common_style_set s) GCS_MARKER_SEARCH) =
         Inr (cs_styling (common_style_set s') GCS_MARKER_SEARCH)"
    and "cs_styling (common_style_set s') GCS_LINE_WRAP_VISUALS =
         cs_styling (common_style_set s) GCS_LINE_WRAP_VISUALS"
    and "cs_styling (common_style_set s') GCS_LINE_WRAP_INDENT =
         cs_styling (common_style_set s) GCS_LINE_WRAP_INDENT"
    and "cs_styling (common_style_set s') GCS_TRANSLUCENCY =
         cs_styling (common_style_set s) GCS_TRANSLUCENCY"
    and "cs_styling (common_style_set s') GCS_MARKER_TRANSLUCENCY =
         cs_styling (common_style_set s) GCS_MARKER_TRANSLUCENCY"
    and "cs_folding_style (common_style_set s') = cs_folding_style (common_style_set s)"
    and "cs_invert_all (common_style_set s') = cs_invert_all (common_style_set s)"
  using assms unfolding common_hex_styles_def and_then_eq_Inr common_hex_result
  by (auto simp add: cs_styling_set_common_styling set_common_styling_others GCS_defs)

lemma common_int_styles_result:
  assumes "common_int_styles ext unspec tmp_style0 config config_home s = Inr s'"
  shows "\<exists>t1 t2 t3 t4 t5 t6 t7 t8.
     get_keyfile_int ext (unspec 0) config config_home (Ptr ''styling'')
       ''folding_style'' 1 1 tmp_style0 = Inr t1 \<and>
     get_keyfile_int ext (unspec 1) config config_home (Ptr ''styling'')
       ''invert_all'' 0 0 t1 = Inr t2 \<and>
     get_keyfile_int ext (unspec 2) config config_home (Ptr ''styling'')
       ''folding_horiz_line'' 2 0 t2 = Inr t3 \<and>
     get_keyfile_int ext (unspec 3) config config_home (Ptr ''styling'')
       ''caret_width'' 1 0 t3 = Inr t4 \<and>
     get_keyfile_int ext (unspec 4) config config_home (Ptr ''styling'')
       ''line_wrap_visuals'' 3 0 t4 = Inr t5 \<and>
     get_keyfile_int ext (unspec 5) config config_home (Ptr ''styling'')
       ''line_wrap_indent'' 0 0 t5 = Inr t6 \<and>
     get_keyfile_int ext (unspec 6) config config_home (Ptr ''styling'')
       ''translucency'' 256 256 t6 = Inr t7 \<and>
     get_keyfile_int ext (unspec 7) config config_home (Ptr ''styling'')
       ''marker_translucency'' 256 256 t7 = Inr t8 \<and>
     cs_folding_style (common_style_set s') =
       (cs_folding_style (common_style_set s))
         \<lparr>marker := ucast (foreground t1), lines := ucast (background t1),
          draw_line := ucast (foreground t3)\<rparr> \<and>
     cs_invert_all (common_style_set s') = foreground t2 \<and>
     cs_styling (common_style_set s') =
       (cs_styling (common_style_set s))
         (GCS_CARET := (cs_styling (common_style_set s) GCS_CARET)
            \<lparr>background := foreground t4\<rparr>,
          GCS_LINE_WRAP_VISUALS := (cs_styling (common_style_set s) GCS_LINE_WRAP_VISUALS)
            \<lparr>foreground := foreground t5, background := background t5\<rparr>,
          GCS_LINE_WRAP_INDENT := (cs_styling (common_style_set s) GCS_LINE_WRAP_INDENT)
            \<lparr>foreground := foreground t6\<rparr>,
          GCS_TRANSLUCENCY := (cs_styling (common_style_set s) GCS_TRANSLUCENCY)
            \<lparr>foreground := foreground t7, background := background t7\<rparr>,
          GCS_MARKER_TRANSLUCENCY := (cs_styling (common_style_set s) GCS_MARKER_TRANSLUCENCY)
            \<lparr>foreground := foreground t8, background := background t8\<rparr>)"
  using assms unfolding common_int_styles_def and_then_eq_Inr Let_def
  by (auto simp add: set_common_styling_def set_folding_style_def GCS_defs)

text \<open>
  A first call that runs to its end has loaded the common style set: every entry holds what
  its reader gave for its key, read in the order of the source.
\<close>

lemma styleset_common_init_populates:
  assumes fresh: "\<not> common_style_set_valid s"
    and run: "styleset_common_init ext unspec tmp_style0 ft_id config config_home s = Inr s'"
  shows "get_keyfile_hex ext config config_home (Ptr ''styling'') ''default''
           (Ptr ''0x000000'') (Ptr ''0xffffff'') (Ptr ''false'')
           (cs_styling (common_style_set s) GCS_DEFAULT) =
         Inr (cs_styling (common_style_set s') GCS_DEFAULT)"
    and "get_keyfile_hex ext config config_home (Ptr ''styling'') ''selection''
           (Ptr ''0xc0c0c0'') (Ptr ''0x7f0000'') (Ptr ''false'')
           (cs_styling (common_style_set s) GCS_SELECTION) =
         Inr (cs_styling (common_style_set s') GCS_SELECTION)"
    and "get_keyfile_hex ext config config_home (Ptr ''styling'') ''brace_good''
           (Ptr ''0x000000'') (Ptr ''0xffffff'') (Ptr ''false'')
           (cs_styling (common_style_set s) GCS_BRACE_GOOD) =
         Inr (cs_styling (common_style_set s') GCS_BRACE_GOOD)"
    and "get_keyfile_hex ext config config_home (Ptr ''styling'') ''brace_bad''
           (Ptr ''0xff0000'') (Ptr ''0xffffff'') (Ptr ''false'')
           (cs_styling (common_style_set s) GCS_BRACE_BAD) =
         Inr (cs_styling (common_style_set s') GCS_BRACE_BAD)"
    and "get_keyfile_hex ext config config_home (Ptr ''styling'') ''margin_linenumber''
           (Ptr ''0x000000'') (Ptr ''0xd0d0d0'') (Ptr ''false'')
           (cs_styling (common_style_set s) GCS_MARGIN_LINENUMBER) =
         Inr (cs_styling (common_style_set s') GCS_MARGIN_LINENUMBER)"
    and "get_keyfile_hex ext config config_home (Ptr ''styling'') ''margin_folding''
           (Ptr ''0x000000'') (Ptr ''0xdfdfdf'') (Ptr ''false'')
           (cs_styling (common_style_set s) GCS_MARGIN_FOLDING) =
         Inr (cs_styling (common_style_set s') GCS_MARGIN_FOLDING)"
    and "get_keyfile_hex ext config config_home (Ptr ''styling'') ''current_line''
           (Ptr ''0x000000'') (Ptr ''0xe5e5e5'') (Ptr ''true'')
           (cs_styling (common_style_set s) GCS_CURRENT_LINE) =
         Inr (cs_styling (common_style_set s') GCS_CURRENT_LINE)"
    and "get_keyfile_hex ext config config_home (Ptr ''styling'') ''indent_guide''
           (Ptr ''0xc0c0c0'') (Ptr ''0xffffff'') (Ptr ''false'')
           (cs_styling (common_style_set s) GCS_INDENT_GUIDE) =
         Inr (cs_styling (common_style_set s') GCS_INDENT_GUIDE)"
    and "get_keyfile_hex ext config config_home (Ptr ''styling'') ''white_space''
           (Ptr ''0xc0c0c0'') (Ptr ''0xffffff'') (Ptr ''true'')
           (cs_styling (common_style_set s) GCS_WHITE_SPACE) =
         Inr (cs_styling (common_style_set s') GCS_WHITE_SPACE)"
    and "get_keyfile_hex ext config config_home (Ptr ''styling'') ''marker_line''
           (Ptr ''0x000000'') (Ptr ''0xffff00'') (Ptr ''false'')
           (cs_styling (common_style_set s) GCS_MARKER_LINE) =
         Inr (cs_styling (common_style_set s') GCS_MARKER_LINE)"
    and "get_keyfile_hex ext config config_home (Ptr ''styling'') ''marker_search''
           (Ptr ''0x000000'') (Ptr ''0xB8F4B8'') (Ptr ''false'')
           (cs_styling (common_style_set s) GCS_MARKER_SEARCH) =
         Inr (cs_styling (common_style_set s') GCS_MARKER_SEARCH)"
    and "\<exists>c t1 t2 t3 t4 t5 t6 t7 t8.
     get_keyfile_hex ext config config_home (Ptr ''styling'') ''caret''
       (Ptr ''0x000000'') (Ptr ''0x000000'') (Ptr ''false'')
       (cs_styling (common_style_set s) GCS_CARET) = Inr c \<and>
     get_keyfile_int ext (unspec 0) config config_home (Ptr ''styling'')
       ''folding_style'' 1 1 tmp_style0 = Inr t1 \<and>
     get_keyfile_int ext (unspec 1) config config_home (Ptr ''styling'')
       ''invert_all'' 0 0 t1 = Inr t2 \<and>
     get_keyfile_int ext (unspec 2) config config_home (Ptr ''styling'')
       ''folding_horiz_line'' 2 0 t2 = Inr t3 \<and>
     get_keyfile_int ext (unspec 3) config config_home (Ptr ''styling'')
       ''caret_width'' 1 0 t3 = Inr t4 \<and>
     get_keyfile_int ext (unspec 4) config config_home (Ptr ''styling'')
       ''line_wrap_visuals'' 3 0 t4 = Inr t5 \<and>
     get_keyfile_int ext (unspec 5) config config_home (Ptr ''styling'')
       ''line_wrap_indent'' 0 0 t5 = Inr t6 \<and>
     get_keyfile_int ext (unspec 6) config config_home (Ptr ''styling'')
       ''translucency'' 256 256 t6 = Inr t7 \<and>
     get_keyfile_int ext (unspec 7) config config_home (Ptr ''styling'')
       ''marker_translucency'' 256 256 t7 = Inr t8 \<and>
     cs_folding_style (common_style_set s') =
       (cs_folding_style (common_style_set s))
         \<lparr>marker := ucast (foreground t1), lines := ucast (background t1),
          draw_line := ucast (foreground t3)\<rparr> \<and>
     cs_invert_all (common_style_set s') = foreground t2 \<and>
     cs_styling (common_style_set s') GCS_CARET = c\<lparr>background := foreground t4\<rparr> \<and>
     cs_styling (common_style_set s') GCS_LINE_WRAP_VISUALS =
       (cs_styling (common_style_set s) GCS_LINE_WRAP_VISUALS)
         \<lparr>foreground := foreground t5, background := background t5\<rparr> \<and>
     cs_styling (common_style_set s') GCS_LINE_WRAP_INDENT =
       (cs_styling (common_style_set s) GCS_LINE_WRAP_INDENT)\<lparr>foreground := foreground t6\<rparr> \<and>
     cs_styling (common_style_set s') GCS_TRANSLUCENCY =
       (cs_styling (common_style_set s) GCS_TRANSLUCENCY)
         \<lparr>foreground := foreground t7, background := background t7\<rparr> \<and>
     cs_styling (common_style_set s') GCS_MARKER_TRANSLUCENCY =
       (cs_styling (common_style_set s) GCS_MARKER_TRANSLUCENCY)
         \<lparr>foreground := foreground t8, background := background t8\<rparr>"
proof -
  from fresh run obtain s1 s2 where
    s1: "common_hex_styles ext config config_home (s\<lparr>common_style_set_valid := True\<rparr>) = Inr s1"
    and s2: "common_int_styles ext unspec tmp_style0 config config_home s1 = Inr s2"
    and s': "s' = s2\<lparr>common_style_set := (common_style_set s2)
                     \<lparr>cs_wordchars := get_keyfile_wordchars ext config config_home\<rparr>,
                   whitespace_chars := get_keyfile_whitespace_chars config config_home\<rparr>"
    by (auto simp add: styleset_common_init_def and_then_eq_Inr Let_def)
  note hex = common_hex_styles_result [OF s1, simplified]
  from common_int_styles_result [OF s2] obtain t1 t2 t3 t4 t5 t6 t7 t8 where int:
    "get_keyfile_int ext (unspec 0) config config_home (Ptr ''styling'')
       ''folding_style'' 1 1 tmp_style0 = Inr t1"
    "get_keyfile_int ext (unspec 1) config config_home (Ptr ''styling'')
       ''invert_all'' 0 0 t1 = Inr t2"
    "get_keyfile_int ext (unspec 2) config config_home (Ptr ''styling'')
       ''folding_horiz_line'' 2 0 t2 = Inr t3"
    "get_keyfile_int ext (unspec 3) config config_home (Ptr ''styling'')
       ''caret_width'' 1 0 t3 = Inr t4"
    "get_keyfile_int ext (unspec 4) config config_home (Ptr ''styling'')
       ''line_wrap_visuals'' 3 0 t4 = Inr t5"
    "get_keyfile_int ext (unspec 5) config config_home (Ptr ''styling'')
       ''line_wrap_indent'' 0 0 t5 = Inr t6"
    "get_keyfile_int ext (unspec 6) config config_home (Ptr ''styling'')
       ''translucency'' 256 256 t6 = Inr t7"
    "get_keyfile_int ext (unspec 7) config config_home (Ptr ''styling'')
       ''marker_translucency'' 256 256 t7 = Inr t8"
    and folding: "cs_folding_style (common_style_set s2) =
       (cs_folding_style (common_style_set s1))
         \<lparr>marker := ucast (foreground t1), lines := ucast (background t1),
          draw_line := ucast (foreground t3)\<rparr>"
    and inv: "cs_invert_all (common_style_set s2) = foreground t2"
    and sty: "cs_styling (common_style_set s2) =
       (cs_styling (common_style_set s1))
         (GCS_CARET := (cs_styling (common_style_set s1) GCS_CARET)
            \<lparr>background := foreground t4\<rparr>,
          GCS_LINE_WRAP_VISUALS := (cs_styling (common_style_set s1) GCS_LINE_WRAP_VISUALS)
            \<lparr>foreground := foreground t5, background := background t5\<rparr>,
          GCS_LINE_WRAP_INDENT := (cs_styling (common_style_set s1) GCS_LINE_WRAP_INDENT)
            \<lparr>foreground := foreground t6\<rparr>,
          GCS_TRANSLUCENCY := (cs_styling (common_style_set s1) GCS_TRANSLUCENCY)
            \<lparr>foreground := foreground t7, background := background t7\<rparr>,
          GCS_MARKER_TRANSLUCENCY := (cs_styling (common_style_set s1) GCS_MARKER_TRANSLUCENCY)
            \<lparr>foreground := foreground t8, background := background t8\<rparr>)"
    by blast
  have sty': "cs_styling (common_style_set s') = cs_styling (common_style_set s2)"
    and folding': "cs_folding_style (common_style_set s') = cs_folding_style (common_style_set s2)"
    and inv': "cs_invert_all (common_style_set s') = cs_invert_all (common_style_set s2)"
    by (simp_all add: s')
  show "get_keyfile_hex ext config config_home (Ptr ''styling'') ''default''
           (Ptr ''0x000000'') (Ptr ''0xffffff'') (Ptr ''false'')
           (cs_styling (common_style_set s) GCS_DEFAULT) =
         Inr (cs_styling (common_style_set s') GCS_DEFAULT)"
    using hex(1) by (simp add: sty' sty GCS_defs)
  show "get_keyfile_hex ext config config_home (Ptr ''styling'') ''selection''
           (Ptr ''0xc0c0c0'') (Ptr ''0x7f0000'') (Ptr ''false'')
           (cs_styling (common_style_set s) GCS_SELECTION) =
         Inr (cs_styling (common_style_set s') GCS_SELECTION)"
    using hex(2) by (simp add: sty' sty GCS_defs)
  show "get_keyfile_hex ext config config_home (Ptr ''styling'') ''brace_good''
           (Ptr ''0x000000'') (Ptr ''0xffffff'') (Ptr ''false'')
           (cs_styling (common_style_set s) GCS_BRACE_GOOD) =
         Inr (cs_styling (common_style_set s') GCS_BRACE_GOOD)"
    using hex(3) by (simp add: sty' sty GCS_defs)
  show "get_keyfile_hex ext config config_home (Ptr ''styling'') ''brace_bad''
           (Ptr ''0xff0000'') (Ptr ''0xffffff'') (Ptr ''false'')
           (cs_styling (common_style_set s) GCS_BRACE_BAD) =
         Inr (cs_styling (common_style_set s') GCS_BRACE_BAD)"
    using hex(4) by (simp add: sty' sty GCS_defs)
  show "get_keyfile_hex ext config config_home (Ptr ''styling'') ''margin_linenumber''
           (Ptr ''0x000000'') (Ptr ''0xd0d0d0'') (Ptr ''false'')
           (cs_styling (common_style_set s) GCS_MARGIN_LINENUMBER) =
         Inr (cs_styling (common_style_set s') GCS_MARGIN_LINENUMBER)"
    using hex(5) by (simp add: sty' sty GCS_defs)
  show "get_keyfile_hex ext config config_home (Ptr ''styling'') ''margin_folding''
           (Ptr ''0x000000'') (Ptr ''0xdfdfdf'') (Ptr ''false'')
           (cs_styling (common_style_set s) GCS_MARGIN_FOLDING) =
         Inr (cs_styling (common_style_set s') GCS_MARGIN_FOLDING)"
    using hex(6) by (simp add: sty' sty GCS_defs)
  show "get_keyfile_hex ext config config_home (Ptr ''styling'') ''current_line''
           (Ptr ''0x000000'') (Ptr ''0xe5e5e5'') (Ptr ''true'')
           (cs_styling (common_style_set s) GCS_CURRENT_LINE) =
         Inr (cs_styling (common_style_set s') GCS_CURRENT_LINE)"
    using hex(7) by (simp add: sty' sty GCS_defs)
  show "get_keyfile_hex ext config config_home (Ptr ''styling'') ''indent_guide''
           (Ptr ''0xc0c0c0'') (Ptr ''0xffffff'') (Ptr ''false'')
           (cs_styling (common_style_set s) GCS_INDENT_GUIDE) =
         Inr (cs_styling (common_style_set s') GCS_INDENT_GUIDE)"
    using hex(9) by (simp add: sty' sty GCS_defs)
  show "get_keyfile_hex ext config config_home (Ptr ''styling'') ''white_space''
           (Ptr ''0xc0c0c0'') (Ptr ''0xffffff'') (Ptr ''true'')
           (cs_styling (common_style_set s) GCS_WHITE_SPACE) =
         Inr (cs_styling (common_style_set s') GCS_WHITE_SPACE)"
    using hex(10) by (simp add: sty' sty GCS_defs)
  show "get_keyfile_hex ext config config_home (Ptr ''styling'') ''marker_line''
           (Ptr ''0x000000'') (Ptr ''0xffff00'') (Ptr ''false'')
           (cs_styling (common_style_set s) GCS_MARKER_LINE) =
         Inr (cs_styling (common_style_set s') GCS_MARKER_LINE)"
    using hex(11) by (simp add: sty' sty GCS_defs)
  show "get_keyfile_hex ext config config_home (Ptr ''styling'') ''marker_search''
           (Ptr ''0x000000'') (Ptr ''0xB8F4B8'') (Ptr ''false'')
           (cs_styling (common_style_set s) GCS_MARKER_SEARCH) =
         Inr (cs_styling (common_style_set s') GCS_MARKER_SEARCH)"
    using hex(12) by (simp add: sty' sty GCS_defs)
  show "\<exists>c t1 t2 t3 t4 t5 t6 t7 t8.
     get_keyfile_hex ext config config_home (Ptr ''styling'') ''caret''
       (Ptr ''0x000000'') (Ptr ''0x000000'') (Ptr ''false'')
       (cs_styling (common_style_set s) GCS_CARET) = Inr c \<and>
     get_keyfile_int ext (unspec 0) config config_home (Ptr ''styling'')
       ''folding_style'' 1 1 tmp_style0 = Inr t1 \<and>
     get_keyfile_int ext (unspec 1) config config_home (Ptr ''styling'')
       ''invert_all'' 0 0 t1 = Inr t2 \<and>
     get_keyfile_int ext (unspec 2) config config_home (Ptr ''styling'')
       ''folding_horiz_line'' 2 0 t2 = Inr t3 \<and>
     get_keyfile_int ext (unspec 3) config config_home (Ptr ''styling'')
       ''caret_width'' 1 0 t3 = Inr t4 \<and>
     get_keyfile_int ext (unspec 4) config config_home (Ptr ''styling'')
       ''line_wrap_visuals'' 3 0 t4 = Inr t5 \<and>
     get_keyfile_int ext (unspec 5) config config_home (Ptr ''styling'')
       ''line_wrap_indent'' 0 0 t5 = Inr t6 \<and>
     get_keyfile_int ext (unspec 6) config config_home (Ptr ''styling'')
       ''translucency'' 256 256 t6 = Inr t7 \<and>
     get_keyfile_int ext (unspec 7) config config_home (Ptr ''styling'')
       ''marker_translucency'' 256 256 t7 = Inr t8 \<and>
     cs_folding_style (common_style_set s') =
       (cs_folding_style (common_style_set s))
         \<lparr>marker := ucast (foreground t1), lines := ucast (background t1),
          draw_line := ucast (foreground t3)\<rparr> \<and>
     cs_invert_all (common_style_set s') = foreground t2 \<and>
     cs_styling (common_style_set s') GCS_CARET = c\<lparr>background := foreground t4\<rparr> \<and>
     cs_styling (common_style_set s') GCS_LINE_WRAP_VISUALS =
       (cs_styling (common_style_set s) GCS_LINE_WRAP_VISUALS)
         \<lparr>foreground := foreground t5, background := background t5\<rparr> \<and>
     cs_styling (common_style_set s') GCS_LINE_WRAP_INDENT =
       (cs_styling (common_style_set s) GCS_LINE_WRAP_INDENT)\<lparr>foreground := foreground t6\<rparr> \<and>
     cs_styling (common_style_set s') GCS_TRANSLUCENCY =
       (cs_styling (common_style_set s) GCS_TRANSLUCENCY)
         \<lparr>foreground := foreground t7, background := background t7\<rparr> \<and>
     cs_styling (common_style_set s') GCS_MARKER_TRANSLUCENCY =
       (cs_styling (common_style_set s) GCS_MARKER_TRANSLUCENCY)
         \<lparr>foreground := foreground t8, background := background t8\<rparr>"
    using hex(8) hex(13-18) int folding inv
    by (simp add: sty' folding' inv' sty GCS_defs)
qed

text \<open>
  The flag: a call that finds it set returns at once with the state as it was; a first call
  that runs to its end has set it, and has stored the word characters and the whitespace
  characters; it runs to its end when every list it finds is long enough for its reader.
\<close>

lemma styleset_common_init_latch:
  "(common_style_set_valid s \<longrightarrow>
      styleset_common_init ext unspec tmp_style0 ft_id config config_home s = Inr s) \<and>
   (\<not> common_style_set_valid s \<and>
    styleset_common_init ext unspec tmp_style0 ft_id config config_home s = Inr s' \<longrightarrow>
      common_style_set_valid s' \<and>
      cs_wordchars (common_style_set s') = get_keyfile_wordchars ext config config_home \<and>
      whitespace_chars s' = get_keyfile_whitespace_chars config config_home \<and>
      (\<forall>unspec' tmp_style0' ft_id' config' config_home'.
         styleset_common_init ext unspec' tmp_style0' ft_id' config' config_home' s' = Inr s')) \<and>
   (common_lists_long_enough config config_home \<longrightarrow>
      (\<exists>s'. styleset_common_init ext unspec tmp_style0 ft_id config config_home s = Inr s'))"
proof (intro conjI impI)
  assume "common_style_set_valid s"
  then show "styleset_common_init ext unspec tmp_style0 ft_id config config_home s = Inr s"
    by (simp add: styleset_common_init_def)
next
  assume a: "\<not> common_style_set_valid s \<and>
    styleset_common_init ext unspec tmp_style0 ft_id config config_home s = Inr s'"
  then obtain s1 s2 where
    s1: "common_hex_styles ext config config_home (s\<lparr>common_style_set_valid := True\<rparr>) = Inr s1"
    and s2: "common_int_styles ext unspec tmp_style0 config config_home s1 = Inr s2"
    and s': "s' = s2\<lparr>common_style_set := (common_style_set s2)
                     \<lparr>cs_wordchars := get_keyfile_wordchars ext config config_home\<rparr>,
                   whitespace_chars := get_keyfile_whitespace_chars config config_home\<rparr>"
    by (auto simp add: styleset_common_init_def and_then_eq_Inr Let_def)
  have "common_style_set_valid s2"
    using common_hex_styles_frame [OF s1] common_int_styles_frame [OF s2] by simp
  then show valid: "common_style_set_valid s'"
    by (simp add: s')
  show "cs_wordchars (common_style_set s') = get_keyfile_wordchars ext config config_home"
    by (simp add: s')
  show "whitespace_chars s' = get_keyfile_whitespace_chars config config_home"
    by (simp add: s')
  show "\<forall>unspec' tmp_style0' ft_id' config' config_home'.
         styleset_common_init ext unspec' tmp_style0' ft_id' config' config_home' s' = Inr s'"
    using valid by (simp add: styleset_common_init_def)
next
  assume "common_lists_long_enough config config_home"
  then show "\<exists>s'. styleset_common_init ext unspec tmp_style0 ft_id config config_home s = Inr s'"
    by (rule styleset_common_init_returns)
qed

section \<open>The range check of the style lookup\<close>

lemma highlighting_get_style_rejects:
  "ft_id < 0 \<or> int (GEANY_MAX_BUILT_IN_FILETYPES ext) < ft_id \<Longrightarrow>
     highlighting_get_style ext s ft_id style_id = Inr (NULL, s)"
  by (auto simp add: highlighting_get_style_def)

lemma highlighting_get_style_within:
  "0 \<le> ft_id \<Longrightarrow> ft_id < int (GEANY_MAX_BUILT_IN_FILETYPES ext - 1) \<Longrightarrow>
     \<exists>s'. highlighting_get_style ext s ft_id style_id = Inr (Ptr (nat ft_id, style_id), s')"
  by (auto simp add: highlighting_get_style_def Let_def)

section \<open>The claims\<close>




text \<open>
  C2 (as the claim states it, refuted). With \<open>invert_all\<close> set, \<open>invert 0\<close> is
  \<open>0xffffffff\<close>, not \<open>0xffffff - 0\<close>.
\<close>

theorem invert_counterexample:
  "cs_invert_all (common_style_set inverting_state) \<noteq> 0 \<and> (0 :: guint) \<le> 0xffffff \<and>
   invert inverting_state 0 = 0xffffffff \<and> invert inverting_state 0 \<noteq> 0xffffff - 0"
  by (simp add: invert_def inverting_state_def initial_state_def Let_def)

text \<open>
  C2 (amended). When \<open>invert_all\<close> is false, \<open>invert\<close> returns its argument unchanged.
  When it is true, for every 24-bit colour \<open>c\<close> the low 24 bits of \<open>invert c\<close> are the
  channel-wise negation \<open>0xffffff - c\<close>, each of the three channels being replaced by
  \<open>0xff\<close> minus that channel, and the upper eight bits of the 32-bit result are all set:
  \<open>invert c = 0xff000000 + (0xffffff - c)\<close>.
\<close>

theorem invert_negates_low_24_bits:
  "(cs_invert_all (common_style_set s) = 0 \<longrightarrow> invert s c = c) \<and>
   (cs_invert_all (common_style_set s) \<noteq> 0 \<and> c \<le> 0xffffff \<longrightarrow>
      invert s c = 0xff000000 + (0xffffff - c) \<and>
      take_bit 24 (invert s c) = 0xffffff - c \<and>
      take_bit 8 (invert s c) = 0xff - take_bit 8 c \<and>
      take_bit 8 (drop_bit 8 (invert s c)) = 0xff - take_bit 8 (drop_bit 8 c) \<and>
      take_bit 8 (drop_bit 16 (invert s c)) = 0xff - take_bit 8 (drop_bit 16 c))"
proof (intro conjI impI)
  assume "cs_invert_all (common_style_set s) = 0"
  then show "invert s c = c" by (simp add: invert_def)
next
  assume a: "cs_invert_all (common_style_set s) \<noteq> 0 \<and> c \<le> 0xffffff"
  then have n: "invert s c = NOT c" by (simp add: invert_complement)
  have c0: "take_bit 24 c = c" using a by (simp add: colour_take_bit)
  show "invert s c = 0xff000000 + (0xffffff - c)"
    unfolding n by (simp add: not_eq_complement)
  show "take_bit 24 (invert s c) = 0xffffff - c"
    unfolding n by (simp add: colour_minus [OF c0])
  show "take_bit 8 (invert s c) = 0xff - take_bit 8 c"
    unfolding n byte_minus ..
  show "take_bit 8 (drop_bit 8 (invert s c)) = 0xff - take_bit 8 (drop_bit 8 c)"
    unfolding n byte_minus by (rule bit_eqI) (auto simp add: bit_simps)
  show "take_bit 8 (drop_bit 16 (invert s c)) = 0xff - take_bit 8 (drop_bit 16 c)"
    unfolding n byte_minus by (rule bit_eqI) (auto simp add: bit_simps)
qed

theorem invert_negates_low_24_bits_witness:
  "cs_invert_all (common_style_set inverting_state) \<noteq> 0 \<and> (0x123456 :: guint) \<le> 0xffffff \<and>
   invert inverting_state 0x123456 = 0xffedcba9 \<and>
   take_bit 24 (invert inverting_state 0x123456) = 0xedcba9 \<and>
   cs_invert_all (common_style_set initial_state) = 0 \<and>
   invert initial_state 0x123456 = 0x123456"
  using invert_negates_low_24_bits [of inverting_state "0x123456"]
    invert_negates_low_24_bits [of initial_state "0x123456"]
  by (simp add: inverting_state_def initial_state_def)

text \<open>
  C3. For every 24-bit colour \<open>c = 0xRRGGBB\<close>, \<open>0 \<le> c \<le> 0xffffff\<close>,
  \<open>rotate_rgb c = 0xBBGGRR\<close>: with \<open>RR = c div 65536\<close>, \<open>GG = c div 256 mod 256\<close> and
  \<open>BB = c mod 256\<close> the digits of \<open>c\<close> in base 256, the result is
  \<open>BB * 65536 + GG * 256 + RR\<close>. Hence \<open>rotate_rgb\<close> is an involution on that range.
\<close>

theorem rotate_rgb_exchanges_red_and_blue:
  "c \<le> 0xffffff \<Longrightarrow>
     unat (rotate_rgb c) =
       unat c mod 256 * 65536 + unat c div 256 mod 256 * 256 + unat c div 65536 \<and>
     unat c = unat c div 65536 * 65536 + unat c div 256 mod 256 * 256 + unat c mod 256 \<and>
     unat c div 65536 < 256 \<and>
     rotate_rgb (rotate_rgb c) = c"
proof -
  assume c: "c \<le> 0xffffff"
  then have "unat c \<le> 16777215" by (simp add: word_le_nat_alt)
  then have red: "unat c div 65536 < 256" by simp
  have split: "unat c = unat c div 65536 * 65536 + unat c div 256 mod 256 * 256 + unat c mod 256"
  proof -
    have 1: "unat c div 65536 = unat c div 256 div 256" by (simp add: div_mult2_eq)
    have 2: "unat c = unat c div 256 * 256 + unat c mod 256" by simp
    have 3: "unat c div 256 = unat c div 256 div 256 * 256 + unat c div 256 mod 256" by simp
    show ?thesis unfolding 1 using 2 3 by linarith
  qed
  show ?thesis
    using red split rotate_rgb_twice [OF c] by (simp add: unat_rotate_rgb)
qed

theorem rotate_rgb_exchanges_red_and_blue_witness:
  "(0x123456 :: gint) \<le> 0xffffff \<and> rotate_rgb 0x123456 = 0x563412 \<and>
   rotate_rgb (rotate_rgb 0x123456) = 0x123456"
  using rotate_rgb_exchanges_red_and_blue [of "0x123456"]
  by (simp add: word_unat_eq_iff)

text \<open>
  C4. Whenever either keyfile pointer is \<open>NULL\<close> or the requested key is absent from both
  keyfiles, the lookup stores the hard-coded default and nothing else happens:
  \<open>get_keyfile_keywords\<close> stores the supplied default string into the keyword slot and
  leaves the rest of the state as it was, \<open>get_keyfile_wordchars\<close> stores
  \<open>GEANY_WORDCHARS\<close>, and \<open>get_keyfile_whitespace_chars\<close> returns
  \<open>GEANY_WHITESPACE_CHARS\<close>. No fault and no other outcome arises from the missing key.
  (The keyword slot \<open>style_sets[index].keywords[pos]\<close> has to exist, as for every call.)
\<close>

theorem missing_key_stores_default:
  "((config = NULL \<or> configh = NULL \<or>
     section_ptr = Ptr section \<and> no_value config configh section key) \<and>
    0 \<le> index \<and> index < int (GEANY_MAX_BUILT_IN_FILETYPES ext - 1) \<and>
    keywords' (style_sets s (nat index)) = Ptr kw \<and> 0 \<le> pos \<and> pos < int (length kw) \<longrightarrow>
      get_keyfile_keywords ext config configh section_ptr key index pos default_value s =
        Inr (s\<lparr>style_sets := (style_sets s)
               (nat index := (style_sets s (nat index))
                  \<lparr>keywords' := Ptr (kw[nat pos := default_value])\<rparr>)\<rparr>)) \<and>
   (no_value config configh ''settings'' ''wordchars'' \<longrightarrow>
      get_keyfile_wordchars ext config configh = Ptr (GEANY_WORDCHARS ext)) \<and>
   (no_value config configh ''settings'' ''whitespace_chars'' \<longrightarrow>
      get_keyfile_whitespace_chars config configh = Ptr GEANY_WHITESPACE_CHARS)"
proof (intro conjI impI)
  assume a: "(config = NULL \<or> configh = NULL \<or>
     section_ptr = Ptr section \<and> no_value config configh section key) \<and>
    0 \<le> index \<and> index < int (GEANY_MAX_BUILT_IN_FILETYPES ext - 1) \<and>
    keywords' (style_sets s (nat index)) = Ptr kw \<and> 0 \<le> pos \<and> pos < int (length kw)"
  then have st: "store_keyword (GEANY_MAX_BUILT_IN_FILETYPES ext - 1) index pos default_value s =
      Inr (s\<lparr>style_sets := (style_sets s)
               (nat index := (style_sets s (nat index))
                  \<lparr>keywords' := Ptr (kw[nat pos := default_value])\<rparr>)\<rparr>)"
    by (simp add: store_keyword_def)
  from a have "config = NULL \<or> configh = NULL \<or>
     section_ptr = Ptr section \<and> no_value config configh section key" by simp
  then have "get_keyfile_keywords ext config configh section_ptr key index pos default_value s =
      store_keyword (GEANY_MAX_BUILT_IN_FILETYPES ext - 1) index pos default_value s"
    by (auto simp add: get_keyfile_keywords_def no_value_def or_else_def g_strdup_def Let_def
          split: ptr.splits)
  with st show "get_keyfile_keywords ext config configh section_ptr key index pos default_value s =
        Inr (s\<lparr>style_sets := (style_sets s)
               (nat index := (style_sets s (nat index))
                  \<lparr>keywords' := Ptr (kw[nat pos := default_value])\<rparr>)\<rparr>)"
    by simp
next
  assume "no_value config configh ''settings'' ''wordchars''"
  then show "get_keyfile_wordchars ext config configh = Ptr (GEANY_WORDCHARS ext)"
    by (auto simp add: get_keyfile_wordchars_def no_value_def or_else_def g_strdup_def Let_def
          split: ptr.splits)
next
  assume "no_value config configh ''settings'' ''whitespace_chars''"
  then show "get_keyfile_whitespace_chars config configh = Ptr GEANY_WHITESPACE_CHARS"
    by (auto simp add: get_keyfile_whitespace_chars_def no_value_def or_else_def g_strdup_def
          Let_def split: ptr.splits)
qed

theorem missing_key_stores_default_witness:
  "no_value NULL (Ptr (keyfile_with_string ''keywords'' ''primary'' ''if else'')) ''keywords'' ''primary'' \<and>
   get_keyfile_keywords sample_externals NULL
       (Ptr (keyfile_with_string ''keywords'' ''primary'' ''if else''))
       (Ptr ''keywords'') ''primary'' 2 0 (Ptr ''do while'') loaded_state =
     Inr (loaded_state\<lparr>style_sets := (style_sets loaded_state)
            (2 := (style_sets loaded_state 2)\<lparr>keywords' := Ptr [Ptr ''do while'', NULL]\<rparr>)\<rparr>) \<and>
   no_value (Ptr empty_keyfile) (Ptr empty_keyfile) ''settings'' ''wordchars'' \<and>
   get_keyfile_wordchars sample_externals (Ptr empty_keyfile) (Ptr empty_keyfile) =
     Ptr (GEANY_WORDCHARS sample_externals) \<and>
   no_value (Ptr empty_keyfile) NULL ''settings'' ''whitespace_chars'' \<and>
   get_keyfile_whitespace_chars (Ptr empty_keyfile) NULL = Ptr GEANY_WHITESPACE_CHARS"
  using missing_key_stores_default [of NULL "Ptr (keyfile_with_string ''keywords'' ''primary'' ''if else'')"
      "Ptr ''keywords''" "''keywords''" "''primary''" 2 sample_externals loaded_state "[NULL, NULL]" 0
      "Ptr ''do while''"]
    missing_key_stores_default [of "Ptr empty_keyfile" "Ptr empty_keyfile" NULL "''settings''"
      "''wordchars''" 0 sample_externals loaded_state "[]" 0 NULL]
    missing_key_stores_default [of "Ptr empty_keyfile" NULL NULL "''settings''"
      "''whitespace_chars''" 0 sample_externals loaded_state "[]" 0 NULL]
  by (simp add: no_value_def empty_keyfile_def sample_externals_def loaded_state_def
        initial_state_def)

text \<open>
  C5 (as the claim states it, refuted). With \<open>invert_all\<close> set and a stored foreground
  of \<open>0\<close>, the colour sent with \<open>SCI_STYLESETFORE\<close> is \<open>0xffffffff\<close>: the stored
  colours are not forwarded as they are.
\<close>

theorem set_sci_style_counterexample:
  "foreground (cs_styling (common_style_set inverting_state) 0) = 0 \<and>
   set_sci_style sample_externals inverting_state 32 (GEANY_FILETYPES_NONE sample_externals) 0 =
     Inr [(SCI_STYLESETFORE, 32, Colour 0xffffffff),
          (SCI_STYLESETBACK, 32, Colour 0xffffffff),
          (SCI_STYLESETBOLD, 32, Flag False),
          (SCI_STYLESETITALIC, 32, Flag False)] \<and>
   Colour 0xffffffff \<noteq> Colour (foreground (cs_styling (common_style_set inverting_state) 0))"
  by (simp add: set_sci_style_def style_ptr_of_def and_then_def invert_def Let_def
        inverting_state_def initial_state_def zero_style_def sample_externals_def GCS_MAX_def)

text \<open>
  C5 (amended). \<open>set_sci_style\<close> issues exactly four widget calls for the given Scintilla
  style number, one each for foreground colour, background colour, bold and italic, from the
  styling record of the given filetype (from the common style set when the filetype is
  \<open>GEANY_FILETYPES_NONE\<close>). Bold and italic are forwarded as stored; the foreground and the
  background colour are passed through \<open>invert\<close> first, so they are forwarded as stored
  when \<open>invert_all\<close> is false.
\<close>

theorem set_sci_style_forwards:
  assumes "ft = GEANY_FILETYPES_NONE ext \<and> 0 \<le> styling_index \<and> styling_index < int GCS_MAX \<and>
             st = cs_styling (common_style_set s) (nat styling_index) \<or>
           ft \<noteq> GEANY_FILETYPES_NONE ext \<and> 0 \<le> ft \<and>
             ft < int (GEANY_MAX_BUILT_IN_FILETYPES ext - 1) \<and>
             styling (style_sets s (nat ft)) = Ptr arr \<and>
             0 \<le> styling_index \<and> styling_index < int (length arr) \<and>
             st = arr ! nat styling_index"
  shows "set_sci_style ext s style ft styling_index =
           Inr [(SCI_STYLESETFORE, style, Colour (invert s (foreground st))),
                (SCI_STYLESETBACK, style, Colour (invert s (background st))),
                (SCI_STYLESETBOLD, style, Flag (bold st)),
                (SCI_STYLESETITALIC, style, Flag (italic st))] \<and>
         (cs_invert_all (common_style_set s) = 0 \<longrightarrow>
            invert s (foreground st) = foreground st \<and>
            invert s (background st) = background st)"
proof -
  from assms have "style_ptr_of ext s ft styling_index = Inr st"
    by (auto simp add: style_ptr_of_def)
  then show ?thesis
    by (simp add: set_sci_style_def and_then_def invert_def)
qed

theorem set_sci_style_forwards_witness:
  "set_sci_style sample_externals inverting_state 32 32 0 =
     Inr [(SCI_STYLESETFORE, 32, Colour (invert inverting_state 0)),
          (SCI_STYLESETBACK, 32, Colour (invert inverting_state 0)),
          (SCI_STYLESETBOLD, 32, Flag False),
          (SCI_STYLESETITALIC, 32, Flag False)] \<and>
   cs_invert_all (common_style_set loaded_state) = 0 \<and>
   set_sci_style sample_externals loaded_state 1 2 1 =
     Inr [(SCI_STYLESETFORE, 1, Colour 0x3f5fbf),
          (SCI_STYLESETBACK, 1, Colour 0xffffff),
          (SCI_STYLESETBOLD, 1, Flag True),
          (SCI_STYLESETITALIC, 1, Flag False)]"
  using set_sci_style_forwards [of 32 sample_externals 0 zero_style inverting_state "[]" 32]
    set_sci_style_forwards [of 2 sample_externals 1 gsd_comment_doc loaded_state
      "[zero_style, gsd_comment_doc]" 1]
  by (simp add: sample_externals_def inverting_state_def loaded_state_def initial_state_def
        zero_style_def gsd_comment_doc_def GCS_MAX_def)

text \<open>
  C6 (holds except on one input, where the code reads outside the list). The claim: for
  every styling key read by \<open>get_keyfile_int\<close> with non-\<open>NULL\<close> keyfiles and section, a
  missing key, or an absent or unparsable first (second) element, leaves the default in the
  foreground (background) field. A key that is present with an empty value gives a list of
  no strings, an array holding the terminating \<open>NULL\<close> only: its first element is absent,
  and \<open>list[1]\<close> is read all the same, outside the array. (For no list and for a list of
  one string or more the fields are as claimed: \<open>get_keyfile_int_no_list\<close>,
  \<open>get_keyfile_int_list\<close>.)
\<close>

theorem get_keyfile_int_empty_value:
  "g_key_file_get_string_list (keyfile_with_list ''styling'' ''folding_style'' [])
     ''styling'' ''folding_style'' = Ptr [] \<and>
   get_keyfile_int sample_externals (False, False)
       (Ptr empty_keyfile) (Ptr (keyfile_with_list ''styling'' ''folding_style'' []))
       (Ptr ''styling'') ''folding_style'' 1 1 zero_style =
     Inl Out_of_bounds \<and>
   get_keyfile_int sample_externals (False, False)
       (Ptr empty_keyfile) (Ptr (keyfile_with_list ''styling'' ''folding_style'' []))
       (Ptr ''styling'') ''folding_style'' 1 1 zero_style \<noteq>
     Inr (zero_style\<lparr>foreground := 1, background := 1\<rparr>)"
  by (simp add: get_keyfile_int_def or_else_def keyfile_with_list_def empty_keyfile_def
        elem_def list_at_def and_then_def Let_def)

text \<open>
  C7 (holds except on short lists, where the code reads outside the list). The claim: after
  every call of \<open>get_keyfile_style\<close> with its five pointers non-\<open>NULL\<close>, each of the four
  fields is the value parsed from its list element when that element is present, and else the
  field of the default style (foreground and background through \<open>rotate_rgb\<close>). For a
  configured list of two strings the italic field should so be the default's; the code reads
  \<open>list[3]\<close>, one slot behind the terminating \<open>NULL\<close>, to decide. (For no list and for a
  list of three strings or more the fields are as claimed: \<open>get_keyfile_style_no_list\<close>,
  \<open>get_keyfile_style_list\<close>.)
\<close>

theorem get_keyfile_style_two_elements:
  "get_keyfile_style sample_externals
       (Ptr empty_keyfile) (Ptr (keyfile_with_list ''styling'' ''comment'' [''0x1'', ''0x2'']))
       (Ptr ''comment'') (Ptr gsd_comment_doc) (Ptr zero_style) =
     Inl Out_of_bounds \<and>
   get_keyfile_style sample_externals
       (Ptr empty_keyfile) (Ptr (keyfile_with_list ''styling'' ''comment'' [''0x1'', ''0x2'']))
       (Ptr ''comment'') (Ptr gsd_comment_doc) (Ptr zero_style) \<noteq>
     Inr (Ptr \<lparr>foreground = utils_strtod sample_externals ''0x1'',
               background = utils_strtod sample_externals ''0x2'',
               bold = bold gsd_comment_doc, italic = italic gsd_comment_doc\<rparr>)"
  by (simp add: or_else_def keyfile_with_list_def empty_keyfile_def elem_def list_at_def
        and_then_def Let_def)

text \<open>
  C8 (the range check admits two indices outside the array). The claim: every \<open>ft_id\<close> that
  passes the check \<open>0 \<le> ft_id \<le> GEANY_MAX_BUILT_IN_FILETYPES\<close> indexes \<open>style_sets\<close>
  within its \<open>GEANY_MAX_BUILT_IN_FILETYPES - 1\<close> elements. The two largest values that pass,
  \<open>GEANY_MAX_BUILT_IN_FILETYPES\<close> and \<open>GEANY_MAX_BUILT_IN_FILETYPES - 1\<close>, are read outside
  the array; with 33 filetypes these are 33 and 32. (Below them the read is within the array,
  and outside the range the function returns \<open>NULL\<close> and leaves the array alone:
  \<open>highlighting_get_style_within\<close>, \<open>highlighting_get_style_rejects\<close>.)
\<close>

theorem highlighting_get_style_past_style_sets:
  "highlighting_get_style ext s (int (GEANY_MAX_BUILT_IN_FILETYPES ext)) style_id =
     Inl Out_of_bounds \<and>
   highlighting_get_style ext s (int (GEANY_MAX_BUILT_IN_FILETYPES ext - 1)) style_id =
     Inl Out_of_bounds \<and>
   highlighting_get_style sample_externals initial_state 33 0 = Inl Out_of_bounds \<and>
   highlighting_get_style sample_externals initial_state 32 0 = Inl Out_of_bounds"
  by (simp add: highlighting_get_style_def sample_externals_def)

text \<open>
  C9 (the code reads behind the terminator). The claim: \<open>get_keyfile_style\<close> and
  \<open>get_keyfile_hex\<close> read only list elements at or before the first \<open>NULL\<close>, so that a
  configured list of fewer than four elements never causes a read past its terminating
  \<open>NULL\<close>. Both functions read \<open>list[0]\<close> to \<open>list[3]\<close> whenever there is a list: for a
  list of one string, \<open>list[2]\<close> and \<open>list[3]\<close> lie behind the terminator \<open>list[1]\<close>.
  (So it is for every list of fewer than three strings: \<open>get_keyfile_style_short_list\<close>,
  \<open>get_keyfile_hex_short_list\<close>.)
\<close>

theorem short_list_read_past_terminator:
  "list_at [''0x1''] 1 = Inr NULL \<and>
   list_at [''0x1''] 2 = Inl Out_of_bounds \<and>
   get_keyfile_style sample_externals
       (Ptr empty_keyfile) (Ptr (keyfile_with_list ''styling'' ''comment'' [''0x1'']))
       (Ptr ''comment'') (Ptr gsd_comment_doc) (Ptr zero_style) =
     Inl Out_of_bounds \<and>
   get_keyfile_hex sample_externals
       (Ptr empty_keyfile) (Ptr (keyfile_with_list ''styling'' ''default'' [''0x1'']))
       (Ptr ''styling'') ''default'' (Ptr ''0x000000'') (Ptr ''0xffffff'') (Ptr ''false'')
       zero_style =
     Inl Out_of_bounds"
  by (simp add: get_keyfile_hex_def or_else_def keyfile_with_list_def empty_keyfile_def
        elem_def list_at_def and_then_def Let_def)

text \<open>
  C10 (the first call can read outside a list). The claim: \<open>styleset_common_init\<close> loads
  the common style configuration at most once; the first call populates
  \<open>common_style_set\<close> and \<open>whitespace_chars\<close> from the keyfiles, and every later call
  returns at once and leaves them unchanged. With the line \<open>default=0x000000;0xffffff\<close> in
  the user keyfile the first call reads outside a list before it has loaded anything: its
  first \<open>get_keyfile_hex\<close> reads \<open>list[3]\<close>, one slot behind the terminating \<open>NULL\<close>
  of the list. (The rest of the claim holds. A call that finds the flag set changes nothing; a first
  call that runs to its end has set the flag and loaded every entry from the keyfiles; and it
  runs to its end whenever the lists it finds are long enough for their readers:
  \<open>styleset_common_init_latch\<close>, \<open>styleset_common_init_populates\<close>.)
\<close>

theorem styleset_common_init_short_list:
  "\<not> common_style_set_valid initial_state \<and>
   styleset_common_init sample_externals (\<lambda>k. (False, False)) zero_style 32
       (Ptr empty_keyfile)
       (Ptr (keyfile_with_list ''styling'' ''default'' [''0x000000'', ''0xffffff'']))
       initial_state =
     Inl Out_of_bounds"
proof -
  have "common_hex sample_externals (Ptr empty_keyfile)
      (Ptr (keyfile_with_list ''styling'' ''default'' [''0x000000'', ''0xffffff'']))
      ''default'' ''0x000000'' ''0xffffff'' ''false'' GCS_DEFAULT
      (initial_state\<lparr>common_style_set_valid := True\<rparr>) = Inl Out_of_bounds"
    by (simp add: common_hex_def get_keyfile_hex_def or_else_def keyfile_with_list_def
          empty_keyfile_def elem_def list_at_def and_then_def Let_def)
  then have "common_hex_styles sample_externals (Ptr empty_keyfile)
      (Ptr (keyfile_with_list ''styling'' ''default'' [''0x000000'', ''0xffffff'']))
      (initial_state\<lparr>common_style_set_valid := True\<rparr>) = Inl Out_of_bounds"
    unfolding common_hex_styles_def by (simp only: and_then_Inl)
  moreover have "\<not> common_style_set_valid initial_state"
    by (simp add: initial_state_def)
  ultimately show ?thesis
    by (simp add: styleset_common_init_def and_then_Inl)
qed

end
